theory Spec2Isabelle
  imports Main
begin

section \<open>Data model (src/types.ts)\<close>

text \<open>
  The closed set of source tags of the type \<open>Source\<close>. \<open>sourceTag\<close> gives the string
  each tag is at run time.
\<close>

datatype Source = Process | Importmeta | Docker | Gha | Shell | Dotenv | Ast

fun sourceTag :: "Source \<Rightarrow> string" where
  "sourceTag Process = ''process''"
| "sourceTag Importmeta = ''importmeta''"
| "sourceTag Docker = ''docker''"
| "sourceTag Gha = ''gha''"
| "sourceTag Shell = ''shell''"
| "sourceTag Dotenv = ''dotenv''"
| "sourceTag Ast = ''ast''"

record FileRef =
  filePath :: string
  line :: int
  column :: int
  ref_context :: "string option"
  hint :: "string option"

record Finding =
  name :: string
  source :: Source
  files :: "FileRef list"
  required :: bool
  defaultValue :: "string option"
  isPublic :: bool
  f_notes :: "string list option"

text \<open>
  \<open>FrameworkConfig\<close> and \<open>ScanOptions\<close>. Every option is optional; the fields
  \<open>include\<close> and \<open>exclude\<close> are \<open>includeGlobs\<close> and \<open>excludeGlobs\<close> here. The option
  \<open>framework\<close> is a framework's key or a whole configuration.
\<close>

record FrameworkConfig =
  fw_name :: string
  fw_publicPrefixes :: "string list"
  fw_includePatterns :: "string list option"
  fw_excludePatterns :: "string list option"
  fw_patterns :: "string list option"

datatype FrameworkOption = FrameworkKey string | FrameworkObject FrameworkConfig

record ScanOptions =
  dir :: "string option"
  includeGlobs :: "string list option"
  excludeGlobs :: "string list option"
  framework :: "FrameworkOption option"
  publicPrefixes :: "string list option"
  maxFileSize :: "int option"
  followSymlinks :: "bool option"
  cacheDir :: "string option"
  cache :: "bool option"
  respectGitignore :: "bool option"
  debug :: "bool option"
  includeProviders :: "string list option"
  excludeProviders :: "string list option"

text \<open>A thrown \<open>Error\<close>, with its message.\<close>

datatype error = Error string

section \<open>Runtime type guards (src/types.ts: isValidSource, isFinding)\<close>

text \<open>
  The guards take a value of type \<open>unknown\<close>, so they are modelled over the values of
  JavaScript: a number is an integer here, and an object is the list of its own
  properties.
\<close>

datatype JSValue =
    JUndefined
  | JNull
  | JBoolean bool
  | JNumber int
  | JString string
  | JArray "JSValue list"
  | JObject "(string \<times> JSValue) list"

text \<open>Reading a property: a missing one reads as \<open>undefined\<close>.\<close>

definition getProperty :: "(string \<times> JSValue) list \<Rightarrow> string \<Rightarrow> JSValue" where
  "getProperty props key = (case map_of props key of None \<Rightarrow> JUndefined | Some v \<Rightarrow> v)"

fun isJString :: "JSValue \<Rightarrow> bool" where
  "isJString (JString s) = True"
| "isJString v = False"

fun isJBoolean :: "JSValue \<Rightarrow> bool" where
  "isJBoolean (JBoolean b) = True"
| "isJBoolean v = False"

fun isJArray :: "JSValue \<Rightarrow> bool" where
  "isJArray (JArray xs) = True"
| "isJArray v = False"

fun isValidSource :: "JSValue \<Rightarrow> bool" where
  "isValidSource (JString s) =
     (s \<in> set [''process'', ''importmeta'', ''docker'', ''gha'', ''shell'', ''dotenv''])"
| "isValidSource v = False"

text \<open>
  \<open>isFinding\<close>: only a non-null object passes the first test; an array is an object
  without the property \<open>name\<close>, so it fails the second.
\<close>

fun isFinding :: "JSValue \<Rightarrow> bool" where
  "isFinding (JObject obj) =
     (isJString (getProperty obj ''name'')
      \<and> isValidSource (getProperty obj ''source'')
      \<and> isJArray (getProperty obj ''files'')
      \<and> isJBoolean (getProperty obj ''required'')
      \<and> isJBoolean (getProperty obj ''isPublic''))"
| "isFinding v = False"

text \<open>
  The objects that \<open>createFileRef\<close> and \<open>createFinding\<close> build, as values: the optional
  properties are present only when they are set.
\<close>

definition optionalProperty :: "string \<Rightarrow> 'a option \<Rightarrow> ('a \<Rightarrow> JSValue) \<Rightarrow> (string \<times> JSValue) list" where
  "optionalProperty key v enc = (case v of None \<Rightarrow> [] | Some x \<Rightarrow> [(key, enc x)])"

definition fileRefValue :: "FileRef \<Rightarrow> JSValue" where
  "fileRefValue r =
     JObject ([(''filePath'', JString (filePath r)),
               (''line'', JNumber (line r)),
               (''column'', JNumber (column r))]
              @ optionalProperty ''context'' (ref_context r) JString
              @ optionalProperty ''hint'' (hint r) JString)"

definition findingValue :: "Finding \<Rightarrow> JSValue" where
  "findingValue f =
     JObject ([(''name'', JString (name f)),
               (''source'', JString (sourceTag (source f))),
               (''files'', JArray (map fileRefValue (files f))),
               (''required'', JBoolean (required f)),
               (''isPublic'', JBoolean (isPublic f))]
              @ optionalProperty ''defaultValue'' (defaultValue f) JString
              @ optionalProperty ''notes'' (f_notes f) (\<lambda>ns. JArray (map JString ns)))"

section \<open>JavaScript string operations\<close>

text \<open>
  A string is the list of its characters. The characters the code tells apart are
  ASCII ones; of the others only the no-break space matters, as white space.
\<close>

definition dquote :: char where
  "dquote = CHR 0x22"

definition squote :: char where
  "squote = CHR 0x27"

text \<open>
  White space for \<open>String.prototype.trim\<close> and for \<open>\s\<close> in a regular expression: tab,
  line feed, vertical tab, form feed, carriage return, space, no-break space.
\<close>

definition isWhiteSpace :: "char \<Rightarrow> bool" where
  "isWhiteSpace c \<longleftrightarrow>
     c \<in> set [CHR 0x09, CHR 0x0A, CHR 0x0B, CHR 0x0C, CHR 0x0D, CHR 0x20, CHR 0xA0]"

text \<open>The line terminators, which \<open>.\<close> in a regular expression does not match.\<close>

definition isLineTerminator :: "char \<Rightarrow> bool" where
  "isLineTerminator c \<longleftrightarrow> c \<in> set [CHR 0x0A, CHR 0x0D]"

definition trim :: "string \<Rightarrow> string" where
  "trim s = rev (dropWhile isWhiteSpace (rev (dropWhile isWhiteSpace s)))"

definition startsWith :: "string \<Rightarrow> string \<Rightarrow> bool" where
  "startsWith s p \<longleftrightarrow> take (length p) s = p"

definition endsWith :: "string \<Rightarrow> string \<Rightarrow> bool" where
  "endsWith s p \<longleftrightarrow> length p \<le> length s \<and> drop (length s - length p) s = p"

text \<open>\<open>s.includesSub(sub)\<close>: \<open>sub\<close> starts at some position of \<open>s\<close>.\<close>

fun includesSub :: "string \<Rightarrow> string \<Rightarrow> bool" where
  "includesSub [] sub = (sub = [])"
| "includesSub (c # cs) sub = (startsWith (c # cs) sub \<or> includesSub cs sub)"

text \<open>\<open>s.slice(1, -1)\<close>: without the first and the last character; empty for a string of one.\<close>

definition slice_1_m1 :: "string \<Rightarrow> string" where
  "slice_1_m1 s = butlast (tl s)"

text \<open>
  \<open>s.split(sep)\<close> for a separator that is not empty (the code splits at a line feed and at
  the operators \<open>:-\<close> and \<open>:=\<close>): \<open>piece\<close> is the part read since the last separator.
\<close>

fun splitFrom :: "string \<Rightarrow> string \<Rightarrow> string \<Rightarrow> string list" where
  "splitFrom sep piece [] = [piece]"
| "splitFrom sep piece (c # cs) =
     (if startsWith (c # cs) sep
      then piece # splitFrom sep [] (drop (length sep - 1) cs)
      else splitFrom sep (piece @ [c]) cs)"

definition split :: "string \<Rightarrow> string \<Rightarrow> string list" where
  "split s sep = splitFrom sep [] s"

text \<open>\<open>toUpperCase\<close>, on the letters \<open>a\<close> to \<open>z\<close>.\<close>

definition upperChar :: "char \<Rightarrow> char" where
  "upperChar c =
     (let n = (of_char c :: nat) in if 97 \<le> n \<and> n \<le> 122 then char_of (n - 32) else c)"

definition toUpperCase :: "string \<Rightarrow> string" where
  "toUpperCase s = map upperChar s"

text \<open>The classes \<open>[A-Za-z_]\<close> and \<open>[A-Za-z0-9_]\<close> of the identifier grammar.\<close>

definition isIdentStart :: "char \<Rightarrow> bool" where
  "isIdentStart c \<longleftrightarrow>
     (let n = (of_char c :: nat)
      in (65 \<le> n \<and> n \<le> 90) \<or> (97 \<le> n \<and> n \<le> 122) \<or> n = 95)"

definition isIdentChar :: "char \<Rightarrow> bool" where
  "isIdentChar c \<longleftrightarrow>
     (let n = (of_char c :: nat) in isIdentStart c \<or> (48 \<le> n \<and> n \<le> 57))"

text \<open>\<open>isValidEnvVarName\<close>: the test of \<open>/^[A-Za-z_][A-Za-z0-9_]*$/\<close>; the empty name fails.\<close>

definition isValidEnvVarName :: "string \<Rightarrow> bool" where
  "isValidEnvVarName nm =
     (case nm of [] \<Rightarrow> False | c # cs \<Rightarrow> isIdentStart c \<and> list_all isIdentChar cs)"

text \<open>\<open>isPublicVariable\<close>: a name that is not empty and starts with one of the prefixes.\<close>

definition isPublicVariable :: "string \<Rightarrow> string list \<Rightarrow> bool" where
  "isPublicVariable nm prefixes \<longleftrightarrow> nm \<noteq> [] \<and> list_ex (\<lambda>p. startsWith nm p) prefixes"

section \<open>Utilities (utils: createFileRef, createFinding, mergeFindings)\<close>

text \<open>
  JavaScript truthiness of an optional string: \<open>undefined\<close> and the empty string are
  falsy, every other string is truthy.
\<close>

fun truthy :: "string option \<Rightarrow> bool" where
  "truthy None = False"
| "truthy (Some s) = (s \<noteq> [])"

text \<open>
  \<open>createFileRef\<close> stores \<open>path.resolve(filePath)\<close>; the resolution of a path against
  the working directory is Node's, so it is the parameter \<open>resolve\<close>.
\<close>

definition createFileRef ::
  "(string \<Rightarrow> string) \<Rightarrow> string \<Rightarrow> int \<Rightarrow> int \<Rightarrow> string option \<Rightarrow> FileRef" where
  "createFileRef resolve fp ln col ctx =
     \<lparr>filePath = resolve fp, line = ln, column = col, ref_context = ctx, hint = None\<rparr>"

text \<open>The optional fields of the \<open>options\<close> argument of \<open>createFinding\<close>.\<close>

record FindingOptions =
  opt_required :: "bool option"
  opt_defaultValue :: "string option"
  opt_isPublic :: "bool option"
  opt_notes :: "string list option"

definition noOptions :: FindingOptions where
  "noOptions = \<lparr>opt_required = None, opt_defaultValue = None, opt_isPublic = None, opt_notes = None\<rparr>"

definition createFinding ::
  "string \<Rightarrow> Source \<Rightarrow> FileRef list \<Rightarrow> FindingOptions \<Rightarrow> Finding" where
  "createFinding nm src fs options =
     \<lparr>name = nm, source = src, files = fs,
      required = (case opt_required options of None \<Rightarrow> True | Some b \<Rightarrow> b),
      defaultValue = opt_defaultValue options,
      isPublic = (case opt_isPublic options of None \<Rightarrow> False | Some b \<Rightarrow> b),
      f_notes = opt_notes options\<rparr>"

text \<open>\<open>Array.prototype.findIndex\<close>: the first index whose element satisfies \<open>p\<close>, or \<open>-1\<close>.\<close>

fun findIndex :: "('a \<Rightarrow> bool) \<Rightarrow> 'a list \<Rightarrow> int" where
  "findIndex p [] = -1"
| "findIndex p (x # xs) =
     (if p x then 0 else (let i = findIndex p xs in if i < 0 then -1 else i + 1))"

definition samePosition :: "FileRef \<Rightarrow> FileRef \<Rightarrow> bool" where
  "samePosition file f \<longleftrightarrow>
     filePath f = filePath file \<and> line f = line file \<and> column f = column file"

definition uniqueFiles :: "FileRef list \<Rightarrow> FileRef list" where
  "uniqueFiles allFiles =
     map snd (filter (\<lambda>(index, file). findIndex (samePosition file) allFiles = int index)
                     (enumerate 0 allFiles))"

definition sourceOrder :: "Source list" where
  "sourceOrder = [Ast, Process, Importmeta, Dotenv, Shell, Docker, Gha]"

definition hasNotes :: "Finding \<Rightarrow> bool" where
  "hasNotes f = (case f_notes f of None \<Rightarrow> False | Some ns \<Rightarrow> ns \<noteq> [])"

definition notesOrEmpty :: "Finding \<Rightarrow> string list" where
  "notesOrEmpty f = (case f_notes f of None \<Rightarrow> [] | Some ns \<Rightarrow> ns)"

text \<open>
  \<open>mergeFindings\<close>: the two \<open>throw\<close> statements are the \<open>Inl\<close> results; a list of one
  finding is returned as it is; a longer list of findings of one name is folded.
\<close>

definition mergeFindings :: "Finding list \<Rightarrow> error + Finding" where
  "mergeFindings findings =
     (case findings of
        [] \<Rightarrow> Inl (Error ''Cannot merge empty findings array'')
      | [f] \<Rightarrow> Inr f
      | f0 # _ \<Rightarrow>
          (let firstName = name f0 in
           if \<not> list_all (\<lambda>f. name f = firstName) findings
           then Inl (Error ''All findings must have the same name to merge'')
           else
             (let allFiles = concat (map files findings);
                  primarySource =
                    (case find (\<lambda>s. list_ex (\<lambda>f. source f = s) findings) sourceOrder of
                       Some s \<Rightarrow> s
                     | None \<Rightarrow> source f0)
              in Inr (createFinding firstName primarySource (uniqueFiles allFiles)
                   \<lparr>opt_required = Some (list_ex required findings),
                    opt_defaultValue =
                      (case find (\<lambda>f. truthy (defaultValue f)) findings of
                         Some f \<Rightarrow> defaultValue f
                       | None \<Rightarrow> None),
                    opt_isPublic = Some (list_ex isPublic findings),
                    opt_notes =
                      (if list_ex hasNotes findings
                       then Some (concat (map notesOrEmpty findings))
                       else None)\<rparr>))))"

section \<open>Declaration-file provider (DotenvProvider)\<close>

record ParsedValue =
  pv_value :: "string option"
  hasValue :: bool

definition placeholders :: "string list" where
  "placeholders =
     ['''', ''YOUR_VALUE_HERE'', ''CHANGE_ME'', ''REPLACE_ME'', ''TODO'', ''TBD'', ''...'',
      ''xxx'', ''XXX'']"

definition parseEnvValue :: "string \<Rightarrow> ParsedValue" where
  "parseEnvValue v =
     (if v = [] then \<lparr>pv_value = None, hasValue = False\<rparr>
      else
        (let trimmedValue = trim v;
             trimmedValue =
               (if (startsWith trimmedValue [dquote] \<and> endsWith trimmedValue [dquote])
                   \<or> (startsWith trimmedValue [squote] \<and> endsWith trimmedValue [squote])
                then slice_1_m1 trimmedValue
                else trimmedValue)
         in if toUpperCase trimmedValue \<in> set placeholders
            then \<lparr>pv_value = None, hasValue = False\<rparr>
            else \<lparr>pv_value = Some trimmedValue, hasValue = True\<rparr>))"

text \<open>
  The match of \<open>/^([A-Za-z_][A-Za-z0-9_]*)\s*=\s*(.*)$/\<close>: the two groups, or \<open>None\<close>.
  Each repetition is greedy and giving characters back never helps (the character after
  the name is not one of the name, the one after the white space is not white space), so
  the match is the one of the longest name and the longest runs of white space; the value
  is the rest of the line, which \<open>.\<close> matches when it holds no line terminator.
\<close>

definition matchKeyValue :: "string \<Rightarrow> (string \<times> string) option" where
  "matchKeyValue s =
     (case s of
        [] \<Rightarrow> None
      | c # cs \<Rightarrow>
          if \<not> isIdentStart c then None
          else
            (case dropWhile isWhiteSpace (dropWhile isIdentChar cs) of
               [] \<Rightarrow> None
             | e # rest \<Rightarrow>
                 if e \<noteq> CHR ''=''  then None
                 else
                   (let v = dropWhile isWhiteSpace rest
                    in if list_ex isLineTerminator v then None
                       else Some (c # takeWhile isIdentChar cs, v))))"

record EnvLine =
  el_name :: string
  el_defaultValue :: "string option"
  hasDefault :: bool
  el_comment :: "string option"

text \<open>
  \<open>parseEnvLine\<close>. \<open>indexOf\<close> is \<open>findIndex\<close> on the characters; the counts of quotes are
  the numbers of single and of double quote characters before the \<open>#\<close>. \<open>None\<close> is the
  result \<open>null\<close>.
\<close>

definition parseEnvLine :: "string \<Rightarrow> int \<Rightarrow> EnvLine option" where
  "parseEnvLine ln lineNumber =
     (let commentIndex = findIndex (\<lambda>c. c = CHR ''#'') ln;
          beforeComment = take (nat commentIndex) ln;
          singleQuotes = length (filter (\<lambda>c. c = squote) beforeComment);
          doubleQuotes = length (filter (\<lambda>c. c = dquote) beforeComment);
          isComment = (commentIndex > 0 \<and> singleQuotes mod 2 = 0 \<and> doubleQuotes mod 2 = 0);
          comment = (if isComment then Some (trim (drop (nat (commentIndex + 1)) ln)) else None);
          workingLine = (if isComment then trim beforeComment else ln)
      in case matchKeyValue workingLine of
           None \<Rightarrow> None
         | Some (nm, v) \<Rightarrow>
             if nm = [] then None
             else if \<not> isValidEnvVarName nm then None
             else
               (let parsedValue = parseEnvValue v
                in Some \<lparr>el_name = nm, el_defaultValue = pv_value parsedValue,
                         hasDefault = hasValue parsedValue, el_comment = comment\<rparr>))"

text \<open>
  \<open>scanFile\<close>, from the content that \<open>readFileSafe\<close> returned (\<open>None\<close> for \<open>null\<close>): one
  finding for each line that parses, in the order of the lines.
\<close>

definition dotenvLineFinding ::
  "(string \<Rightarrow> string) \<Rightarrow> string \<Rightarrow> string list \<Rightarrow> nat \<times> string \<Rightarrow> Finding list" where
  "dotenvLineFinding resolve fp prefixes il =
     (let ln = trim (snd il);
          lineNumber = int (fst il) + 1
      in if ln = [] \<or> startsWith ln ''#'' then []
         else
           (case parseEnvLine ln lineNumber of
              None \<Rightarrow> []
            | Some envVar \<Rightarrow>
                [createFinding (el_name envVar) Dotenv
                   [createFileRef resolve fp lineNumber 1 (el_comment envVar)]
                   \<lparr>opt_required = Some (\<not> hasDefault envVar),
                    opt_defaultValue =
                      (if truthy (el_defaultValue envVar) then el_defaultValue envVar else None),
                    opt_isPublic = Some (isPublicVariable (el_name envVar) prefixes),
                    opt_notes =
                      (case el_comment envVar of
                         None \<Rightarrow> None
                       | Some comment \<Rightarrow> if comment = [] then None else Some [comment])\<rparr>]))"

definition dotenvScanFile ::
  "(string \<Rightarrow> string) \<Rightarrow> string option \<Rightarrow> string \<Rightarrow> ScanOptions \<Rightarrow> Finding list" where
  "dotenvScanFile resolve content fp options =
     (case content of
        None \<Rightarrow> []
      | Some text \<Rightarrow>
          if text = [] then []
          else
            (let lines = split text [CHR 0x0A];
                 prefixes = (case publicPrefixes options of None \<Rightarrow> [] | Some ps \<Rightarrow> ps)
             in concat (map (dotenvLineFinding resolve fp prefixes) (enumerate 0 lines))))"

section \<open>Shell-heuristics provider (ShellProvider)\<close>

text \<open>
  The pattern \<open>varRef\<close> is
  \<open>/\$(?:\{([A-Za-z_][A-Za-z0-9_]*(?::-[^}]*)?)\}|([A-Za-z_][A-Za-z0-9_]*))/g\<close>.
  \<open>readIdentifier\<close> reads \<open>[A-Za-z_][A-Za-z0-9_]*\<close> at the start of a string, greedily,
  and gives the identifier and the rest.
\<close>

definition readIdentifier :: "string \<Rightarrow> (string \<times> string) option" where
  "readIdentifier s =
     (case s of
        [] \<Rightarrow> None
      | c # cs \<Rightarrow>
          if isIdentStart c then Some (c # takeWhile isIdentChar cs, dropWhile isIdentChar cs)
          else None)"

text \<open>
  The optional group \<open>(?::-[^}]*)?\<close> followed by \<open>\}\<close>, after the identifier: the text
  of the group when it matches up to a closing brace, the empty text when the brace
  follows at once. The only operator the group admits is \<open>:-\<close>.
\<close>

definition readDefaultAndBrace :: "string \<Rightarrow> string option" where
  "readDefaultAndBrace after =
     (if startsWith after '':-'' \<and>
         startsWith (dropWhile (\<lambda>c. c \<noteq> CHR ''}'') (drop 2 after)) ''}''
      then Some ('':-'' @ takeWhile (\<lambda>c. c \<noteq> CHR ''}'') (drop 2 after))
      else if startsWith after ''}'' then Some []
      else None)"

text \<open>The first alternative, after the dollar sign: the content of group 1.\<close>

definition matchBraced :: "string \<Rightarrow> string option" where
  "matchBraced s =
     (case s of
        [] \<Rightarrow> None
      | b # r \<Rightarrow>
          if b \<noteq> CHR ''{'' then None
          else
            (case readIdentifier r of
               None \<Rightarrow> None
             | Some (nm, after) \<Rightarrow>
                 (case readDefaultAndBrace after of
                    None \<Rightarrow> None
                  | Some d \<Rightarrow> Some (nm @ d))))"

text \<open>
  A match of \<open>varRef\<close> that starts at the head of the string: the matched text, group 1
  and group 2. The braced alternative is tried first.
\<close>

definition matchVarRefAt :: "string \<Rightarrow> (string \<times> string option \<times> string option) option" where
  "matchVarRefAt s =
     (case s of
        [] \<Rightarrow> None
      | d # rest \<Rightarrow>
          if d \<noteq> CHR ''$'' then None
          else
            (case matchBraced rest of
               Some g1 \<Rightarrow> Some (''${'' @ g1 @ ''}'', Some g1, None)
             | None \<Rightarrow>
                 (case readIdentifier rest of
                    Some (nm, after) \<Rightarrow> Some (''$'' @ nm, None, Some nm)
                  | None \<Rightarrow> None)))"

record RegexMatch =
  m_index :: nat
  fullMatch :: string
  group1 :: "string option"
  group2 :: "string option"

text \<open>
  The loop \<open>while ((match = varRef.exec(line)) !== null)\<close>, from \<open>lastIndex = 0\<close>: the
  matches from left to right, each search starting where the last match ended. The
  first argument is the index of the head of the second in the line. A match is two
  characters at least, so the rest after it is \<open>drop (length full - 1) cs\<close>.
\<close>

fun execAll :: "nat \<Rightarrow> string \<Rightarrow> RegexMatch list" where
  "execAll i [] = []"
| "execAll i (c # cs) =
     (case matchVarRefAt (c # cs) of
        None \<Rightarrow> execAll (i + 1) cs
      | Some (full, g1, g2) \<Rightarrow>
          \<lparr>m_index = i, fullMatch = full, group1 = g1, group2 = g2\<rparr>
          # execAll (i + length full) (drop (length full - 1) cs))"

record Reference =
  r_name :: string
  r_hasDefault :: bool
  r_defaultValue :: "string option"
  startColumn :: int
  endColumn :: int

text \<open>\<open>parts[i] || ''\<close>.\<close>

definition partOrEmpty :: "string list \<Rightarrow> nat \<Rightarrow> string" where
  "partOrEmpty parts i = (if i < length parts then parts ! i else [])"

text \<open>Removing one layer of surrounding quotes from a default value.\<close>

definition stripQuotes :: "string \<Rightarrow> string" where
  "stripQuotes d =
     (if d \<noteq> [] \<and> startsWith d [dquote] \<and> endsWith d [dquote] then slice_1_m1 d
      else if d \<noteq> [] \<and> startsWith d [squote] \<and> endsWith d [squote] then slice_1_m1 d
      else d)"

text \<open>The body of the loop: the reference of one match, or none when the name is empty.\<close>

definition referenceOfMatch :: "RegexMatch \<Rightarrow> Reference list" where
  "referenceOfMatch m =
     (let simpleVariable = ((case group2 m of None \<Rightarrow> [] | Some nm \<Rightarrow> nm), False, None);
          (varName, hasDef, defaultVal) =
            (case group1 m of
               None \<Rightarrow> simpleVariable
             | Some bracedContent \<Rightarrow>
                 if bracedContent = [] then simpleVariable
                 else if includesSub bracedContent '':-'' then
                   (let parts = take 2 (split bracedContent '':-'')
                    in (partOrEmpty parts 0, True, Some (stripQuotes (partOrEmpty parts 1))))
                 else if includesSub bracedContent '':='' then
                   (let parts = take 2 (split bracedContent '':='')
                    in (partOrEmpty parts 0, True, Some (stripQuotes (partOrEmpty parts 1))))
                 else (bracedContent, False, None))
      in if varName = [] then []
         else [\<lparr>r_name = varName, r_hasDefault = hasDef, r_defaultValue = defaultVal,
                startColumn = int (m_index m) + 1,
                endColumn = int (m_index m) + int (length (fullMatch m))\<rparr>])"

definition extractVariableReferences :: "string \<Rightarrow> Reference list" where
  "extractVariableReferences ln = concat (map referenceOfMatch (execAll 0 ln))"

section \<open>Source-semantics provider (AstProvider)\<close>

text \<open>
  The syntax tree of Babel, with the node types and the fields that the provider reads.
  \<open>OtherNode\<close> is a node of any other type (a numeric literal, a call, a block), given by
  the name of its type; the provider reads none of its fields.
\<close>

datatype Node =
    Identifier string
  | StringLiteral string
  | MemberExpression Node Node
  | MetaProperty Node Node
  | LogicalExpression string Node Node
  | ConditionalExpression Node Node Node
  | IfStatement Node Node "Node option"
  | VariableDeclarator Node "Node option"
  | ObjectPattern "Node list"
  | ObjectProperty Node Node
  | AssignmentPattern Node Node
  | RestElement Node
  | OtherNode string

record Position =
  pos_line :: int
  pos_column :: int

record SourceLocation =
  loc_start :: Position
  loc_end :: Position

text \<open>
  A \<open>NodePath\<close> of the traversal: the node, the location \<open>node.loc\<close> of the node, and the
  nodes above it, the parent first (\<open>path.parent\<close>, then the parent of \<open>path.parentPath\<close>,
  and so on).
\<close>

record NodePath =
  node :: Node
  loc :: "SourceLocation option"
  parents :: "Node list"

record EnvVarNode =
  n_name :: string
  n_source :: Source
  n_location :: SourceLocation
  hasGuards :: bool
  n_defaultValue :: "string option"
  n_context :: "string option"

record UsageContext =
  ctx_hasGuards :: bool
  ctx_defaultValue :: "string option"

text \<open>The field \<open>name\<close> of a node: \<open>undefined\<close> (\<open>None\<close>) on a node that is no identifier.\<close>

definition nodeName :: "Node \<Rightarrow> string option" where
  "nodeName n = (case n of Identifier nm \<Rightarrow> Some nm | _ \<Rightarrow> None)"

text \<open>
  The test written three times in the provider, that a node is \<open>process.env\<close>: a member
  expression whose object is the identifier \<open>process\<close> and whose property is the
  identifier \<open>env\<close>.
\<close>

definition isProcessEnv :: "Node \<Rightarrow> bool" where
  "isProcessEnv n =
     (case n of
        MemberExpression obj prop \<Rightarrow>
          nodeName obj = Some ''process'' \<and> nodeName prop = Some ''env''
      | _ \<Rightarrow> False)"

text \<open>
  The test of \<open>analyzeDestructuring\<close> that a node is \<open>import.meta.env\<close>: it compares the
  names of \<open>meta\<close> and \<open>property\<close> without testing their types.
\<close>

definition isImportMetaEnv :: "Node \<Rightarrow> bool" where
  "isImportMetaEnv n =
     (case n of
        MemberExpression obj prop \<Rightarrow>
          (case obj of
             MetaProperty meta property \<Rightarrow>
               nodeName meta = Some ''import'' \<and> nodeName property = Some ''meta''
               \<and> nodeName prop = Some ''env''
           | _ \<Rightarrow> False)
      | _ \<Rightarrow> False)"

text \<open>
  The loop of \<open>analyzeUsageContext\<close> over the paths above: some node from the current one
  upwards is the \<open>test\<close> of an \<open>if\<close> statement that is its parent. The code compares the
  two nodes by identity; a test is an expression and the other children of an \<open>if\<close>
  statement are statements, so equality of the nodes decides the same.
\<close>

definition isIfStatementWithTest :: "Node \<Rightarrow> Node \<Rightarrow> bool" where
  "isIfStatementWithTest parent current =
     (case parent of
        IfStatement test consequent alternate \<Rightarrow> test = current
      | _ \<Rightarrow> False)"

fun isIfTest :: "Node \<Rightarrow> Node list \<Rightarrow> bool" where
  "isIfTest current [] = False"
| "isIfTest current (parent # outer) =
     (if isIfStatementWithTest parent current then True else isIfTest parent outer)"

definition stringLiteralValue :: "Node \<Rightarrow> string option" where
  "stringLiteralValue n = (case n of StringLiteral v \<Rightarrow> Some v | _ \<Rightarrow> None)"

text \<open>The guard and the default that the parent of an access gives, before the loop.\<close>

definition parentGuard :: "Node \<Rightarrow> bool \<times> string option" where
  "parentGuard parent =
     (case parent of
        LogicalExpression operator left right \<Rightarrow>
          if operator = ''||'' \<or> operator = ''??'' then (True, stringLiteralValue right)
          else (False, None)
      | ConditionalExpression test consequent alternate \<Rightarrow> (True, None)
      | _ \<Rightarrow> (False, None))"

definition analyzeUsageContext :: "NodePath \<Rightarrow> UsageContext" where
  "analyzeUsageContext path =
     (case parents path of
        [] \<Rightarrow> \<lparr>ctx_hasGuards = False, ctx_defaultValue = None\<rparr>
      | parent # outer \<Rightarrow>
          (let (guarded, defaultVal) = parentGuard parent
           in \<lparr>ctx_hasGuards = (guarded \<or> isIfTest (node path) (parents path)),
               ctx_defaultValue = (if truthy defaultVal then defaultVal else None)\<rparr>))"

definition defaultLocation :: SourceLocation where
  "defaultLocation =
     \<lparr>loc_start = \<lparr>pos_line = 1, pos_column = 0\<rparr>, loc_end = \<lparr>pos_line = 1, pos_column = 0\<rparr>\<rparr>"

definition createEnvVarNode :: "string \<Rightarrow> Source \<Rightarrow> NodePath \<Rightarrow> UsageContext \<Rightarrow> EnvVarNode" where
  "createEnvVarNode nm src path ctx =
     \<lparr>n_name = nm, n_source = src,
      n_location = (case loc path of None \<Rightarrow> defaultLocation | Some l \<Rightarrow> l),
      hasGuards = ctx_hasGuards ctx,
      n_defaultValue = (if truthy (ctx_defaultValue ctx) then ctx_defaultValue ctx else None),
      n_context = None\<rparr>"

text \<open>
  \<open>analyzeProcessEnvAccess\<close>: the first \<open>if\<close> with its two returns, then the second \<open>if\<close>
  (bracket notation), then \<open>null\<close>. A node that is no member expression has no \<open>object\<close>
  and fails both tests.
\<close>

definition analyzeProcessEnvAccess :: "NodePath \<Rightarrow> EnvVarNode option" where
  "analyzeProcessEnvAccess path =
     (case node path of
        MemberExpression obj prop \<Rightarrow>
          (case (if isProcessEnv obj then
                   (case prop of
                      Identifier nm \<Rightarrow>
                        Some (createEnvVarNode nm Ast path (analyzeUsageContext path))
                    | StringLiteral v \<Rightarrow>
                        Some (createEnvVarNode v Ast path (analyzeUsageContext path))
                    | _ \<Rightarrow> None)
                 else None) of
             Some found \<Rightarrow> Some found
           | None \<Rightarrow>
               (case prop of
                  StringLiteral v \<Rightarrow>
                    if isProcessEnv obj
                    then Some (createEnvVarNode v Ast path (analyzeUsageContext path))
                    else None
                | _ \<Rightarrow> None))
      | _ \<Rightarrow> None)"

definition isMetaEnvObject :: "Node \<Rightarrow> bool" where
  "isMetaEnvObject obj =
     (case obj of
        MemberExpression inner prop \<Rightarrow>
          (case inner of
             MetaProperty meta property \<Rightarrow>
               nodeName prop = Some ''env''
               \<and> nodeName meta = Some ''import'' \<and> nodeName property = Some ''meta''
           | _ \<Rightarrow> False)
      | _ \<Rightarrow> False)"

definition analyzeImportMetaEnvAccess :: "NodePath \<Rightarrow> EnvVarNode option" where
  "analyzeImportMetaEnvAccess path =
     (case node path of
        MemberExpression obj prop \<Rightarrow>
          if isMetaEnvObject obj
          then
            (case prop of
               Identifier nm \<Rightarrow>
                 Some (createEnvVarNode nm Importmeta path (analyzeUsageContext path))
             | StringLiteral v \<Rightarrow>
                 Some (createEnvVarNode v Importmeta path (analyzeUsageContext path))
             | _ \<Rightarrow> None)
          else None
      | _ \<Rightarrow> None)"

text \<open>
  One property of the destructuring pattern: a key with a default clause, a plain key,
  or anything else (a rest element, a computed key), which gives nothing.
\<close>

definition assignmentPatternRight :: "Node \<Rightarrow> Node option" where
  "assignmentPatternRight v = (case v of AssignmentPattern left right \<Rightarrow> Some right | _ \<Rightarrow> None)"

definition destructuredProperty :: "Source \<Rightarrow> NodePath \<Rightarrow> Node \<Rightarrow> EnvVarNode list" where
  "destructuredProperty src path prop =
     (case prop of
        ObjectProperty key v \<Rightarrow>
          (case nodeName key of
             None \<Rightarrow> []
           | Some keyName \<Rightarrow>
               (case assignmentPatternRight v of
                  Some right \<Rightarrow>
                    (let defaultVal = stringLiteralValue right;
                         contextOptions =
                           (if truthy defaultVal
                            then \<lparr>ctx_hasGuards = True, ctx_defaultValue = defaultVal\<rparr>
                            else \<lparr>ctx_hasGuards = False, ctx_defaultValue = None\<rparr>)
                     in [createEnvVarNode keyName src path contextOptions])
                | None \<Rightarrow>
                    [createEnvVarNode keyName src path
                       \<lparr>ctx_hasGuards = False, ctx_defaultValue = None\<rparr>]))
      | _ \<Rightarrow> [])"

definition destructuringSource :: "Node option \<Rightarrow> Source option" where
  "destructuringSource init =
     (case init of
        None \<Rightarrow> None
      | Some i \<Rightarrow>
          (let src = (if isProcessEnv i then Some Ast else None)
           in if isImportMetaEnv i then Some Importmeta else src))"

definition analyzeDestructuring :: "NodePath \<Rightarrow> EnvVarNode list" where
  "analyzeDestructuring path =
     (case node path of
        VariableDeclarator pattern init \<Rightarrow>
          (case pattern of
             ObjectPattern properties \<Rightarrow>
               (case destructuringSource init of
                  None \<Rightarrow> []
                | Some src \<Rightarrow> concat (map (destructuredProperty src path) properties))
           | _ \<Rightarrow> [])
      | _ \<Rightarrow> [])"

text \<open>
  \<open>extractEnvVariables\<close>. Parsing and traversing are Babel's; what the traversal does to
  the provider is the sequence of its calls of the two visitors, so that sequence is the
  argument: a visit of a member expression or of a variable declarator, with its path.
\<close>

datatype Visit = MemberExpressionVisit NodePath | VariableDeclaratorVisit NodePath

fun visitor :: "Visit \<Rightarrow> EnvVarNode list" where
  "visitor (MemberExpressionVisit path) =
     (case analyzeProcessEnvAccess path of
        Some processNode \<Rightarrow> [processNode]
      | None \<Rightarrow>
          (case analyzeImportMetaEnvAccess path of
             Some importMetaNode \<Rightarrow> [importMetaNode]
           | None \<Rightarrow> []))"
| "visitor (VariableDeclaratorVisit path) = analyzeDestructuring path"

definition extractEnvVariables :: "Visit list \<Rightarrow> EnvVarNode list" where
  "extractEnvVariables visits = concat (map visitor visits)"

text \<open>
  A \<open>Map\<close> of JavaScript as the list of its entries in the order of insertion: \<open>set\<close> on a
  key that is present replaces the value where it is, and appends otherwise.
\<close>

fun mapSet :: "'k \<Rightarrow> 'v \<Rightarrow> ('k \<times> 'v) list \<Rightarrow> ('k \<times> 'v) list" where
  "mapSet k v [] = [(k, v)]"
| "mapSet k v ((k', v') # m) = (if k' = k then (k, v) # m else (k', v') # mapSet k v m)"

definition findingKey :: "EnvVarNode \<Rightarrow> string" where
  "findingKey n = sourceTag (n_source n) @ '':'' @ n_name n"

definition addNode ::
  "(string \<Rightarrow> string) \<Rightarrow> string \<Rightarrow> string list \<Rightarrow> (string \<times> Finding) list \<Rightarrow> EnvVarNode
     \<Rightarrow> (string \<times> Finding) list" where
  "addNode resolve fp prefixes findingsMap n =
     (let fileRef = createFileRef resolve fp (pos_line (loc_start (n_location n)))
                      (pos_column (loc_start (n_location n))) (n_context n)
      in case map_of findingsMap (findingKey n) of
           Some existing \<Rightarrow>
             mapSet (findingKey n)
               (createFinding (n_name n) (n_source n) (files existing @ [fileRef])
                  \<lparr>opt_required = Some (required existing \<and> \<not> hasGuards n),
                   opt_defaultValue =
                     (if truthy (defaultValue existing) \<or> truthy (n_defaultValue n)
                      then (case defaultValue existing of
                              None \<Rightarrow> n_defaultValue n
                            | Some d \<Rightarrow> Some d)
                      else None),
                   opt_isPublic = Some (isPublic existing \<or> isPublicVariable (n_name n) prefixes),
                   opt_notes = None\<rparr>)
               findingsMap
         | None \<Rightarrow>
             mapSet (findingKey n)
               (createFinding (n_name n) (n_source n) [fileRef]
                  \<lparr>opt_required = Some (\<not> hasGuards n),
                   opt_defaultValue =
                     (if truthy (n_defaultValue n) then n_defaultValue n else None),
                   opt_isPublic = Some (isPublicVariable (n_name n) prefixes),
                   opt_notes = None\<rparr>)
               findingsMap)"

definition convertNodesToFindings ::
  "(string \<Rightarrow> string) \<Rightarrow> EnvVarNode list \<Rightarrow> string \<Rightarrow> ScanOptions \<Rightarrow> Finding list" where
  "convertNodesToFindings resolve nodes fp options =
     map snd
       (foldl (addNode resolve fp (case publicPrefixes options of None \<Rightarrow> [] | Some ps \<Rightarrow> ps))
          [] nodes)"

text \<open>
  A finding is observed by a list of nodes when one of them carries its name and its
  source tag.
\<close>

definition observedBy :: "EnvVarNode list \<Rightarrow> Finding \<Rightarrow> bool" where
  "observedBy nodes f \<longleftrightarrow> list_ex (\<lambda>n. name f = n_name n \<and> source f = n_source n) nodes"

text \<open>The entries of the map of \<open>convertNodesToFindings\<close> are under the key of their finding.\<close>

definition keyedBySource :: "(string \<times> Finding) list \<Rightarrow> bool" where
  "keyedBySource m \<longleftrightarrow> list_all (\<lambda>(k, f). k = sourceTag (source f) @ '':'' @ name f) m"

section \<open>Scan orchestrator (Scanner)\<close>

text \<open>
  The defaults of \<open>types.ts\<close> and \<open>mergeOptions\<close> of the utilities: every option but
  \<open>framework\<close> gets a value; \<open>includeProviders\<close> and \<open>excludeProviders\<close> come from the spread
  of the defaults under the options.
\<close>

definition DEFAULT_PUBLIC_PREFIXES :: "string list" where
  "DEFAULT_PUBLIC_PREFIXES =
     [''NEXT_PUBLIC_'', ''VITE_'', ''REACT_APP_'', ''VUE_APP_'', ''NUXT_PUBLIC_'', ''PUBLIC_'']"

definition DEFAULT_SCAN_OPTIONS :: ScanOptions where
  "DEFAULT_SCAN_OPTIONS =
     \<lparr>dir = None,
      includeGlobs = Some [''**/*.{js,jsx,ts,tsx,mjs,cjs}'', ''**/*.{yml,yaml}'',
                          ''**/*.{sh,bash,zsh}'', ''.env*'', ''package.json''],
      excludeGlobs = Some [''**/node_modules/**'', ''.git/**'', ''**/dist/**'', ''**/build/**'',
                          ''**/.next/**'', ''**/.nuxt/**'', ''**/.svelte-kit/**'',
                          ''**/coverage/**'', ''**/*.d.ts''],
      framework = None,
      publicPrefixes = Some DEFAULT_PUBLIC_PREFIXES,
      maxFileSize = Some (1024 * 1024),
      followSymlinks = Some False,
      cacheDir = Some ''.env-audit-cache'',
      cache = Some True,
      respectGitignore = Some True,
      debug = Some False,
      includeProviders = Some [],
      excludeProviders = Some []\<rparr>"

text \<open>\<open>a ?? b\<close> on optional values.\<close>

definition orElse :: "'a option \<Rightarrow> 'a option \<Rightarrow> 'a option" where
  "orElse a b = (case a of None \<Rightarrow> b | Some v \<Rightarrow> Some v)"

definition mergeOptions :: "string \<Rightarrow> ScanOptions \<Rightarrow> ScanOptions" where
  "mergeOptions cwd options =
     \<lparr>dir = orElse (dir options) (Some cwd),
      includeGlobs = orElse (includeGlobs options) (includeGlobs DEFAULT_SCAN_OPTIONS),
      excludeGlobs = orElse (excludeGlobs options) (excludeGlobs DEFAULT_SCAN_OPTIONS),
      framework = framework options,
      publicPrefixes = orElse (publicPrefixes options) (publicPrefixes DEFAULT_SCAN_OPTIONS),
      maxFileSize = orElse (maxFileSize options) (maxFileSize DEFAULT_SCAN_OPTIONS),
      followSymlinks = orElse (followSymlinks options) (followSymlinks DEFAULT_SCAN_OPTIONS),
      cacheDir = orElse (cacheDir options) (cacheDir DEFAULT_SCAN_OPTIONS),
      cache = orElse (cache options) (cache DEFAULT_SCAN_OPTIONS),
      respectGitignore = orElse (respectGitignore options) (respectGitignore DEFAULT_SCAN_OPTIONS),
      debug = orElse (debug options) (debug DEFAULT_SCAN_OPTIONS),
      includeProviders = orElse (includeProviders options) (includeProviders DEFAULT_SCAN_OPTIONS),
      excludeProviders = orElse (excludeProviders options) (excludeProviders DEFAULT_SCAN_OPTIONS)\<rparr>"

text \<open>
  A provider: its \<open>scan\<close> returns findings or throws. The scanner holds its providers in
  a \<open>Map\<close> under their names.
\<close>

record Provider =
  p_name :: string
  p_source :: Source
  p_extensions :: "string list"
  p_scan :: "string list \<Rightarrow> ScanOptions \<Rightarrow> error + Finding list"

record Scanner =
  providers :: "(string \<times> Provider) list"

definition registerProvider :: "Scanner \<Rightarrow> Provider \<Rightarrow> Scanner" where
  "registerProvider scanner provider =
     scanner\<lparr>providers := mapSet (p_name provider) provider (providers scanner)\<rparr>"

text \<open>
  What a scan takes from outside the scanner: the working directory of the process, the
  file discovery (it can throw), \<open>detectFramework\<close> of the utilities (it reads
  \<open>package.json\<close> and the directory, and catches every error), the comparison
  \<open>localeCompare\<close> of two names, and what the clock reads at its four readings. Writing
  to the log is left out.
\<close>

record Environment =
  cwd :: string
  fileDiscovery :: "ScanOptions \<Rightarrow> error + string list"
  detectFrameworkIn :: "string \<Rightarrow> string option"
  localeCompare :: "string \<Rightarrow> string \<Rightarrow> int"
  startTime :: int
  scannedAtText :: string
  scanTimeNow :: int
  durationNow :: int

datatype PathArgument = FileList "string list" | Directory string

definition normalizeOptions :: "Environment \<Rightarrow> ScanOptions \<Rightarrow> ScanOptions" where
  "normalizeOptions env options =
     mergeOptions (cwd env) (options\<lparr>dir := orElse (dir options) (Some (cwd env))\<rparr>)"

definition discoverFiles :: "Environment \<Rightarrow> PathArgument \<Rightarrow> ScanOptions \<Rightarrow> error + string list" where
  "discoverFiles env path options =
     (case path of
        FileList fs \<Rightarrow> Inr fs
      | Directory d \<Rightarrow> fileDiscovery env (options\<lparr>dir := Some d\<rparr>))"

text \<open>\<open>s.lastIndexOf('/')\<close>, or \<open>-1\<close>.\<close>

definition lastIndexOfSlash :: "string \<Rightarrow> int" where
  "lastIndexOfSlash s =
     (let i = findIndex (\<lambda>c. c = CHR ''/'') (rev s)
      in if i < 0 then -1 else int (length s) - 1 - i)"

text \<open>The loop of \<open>detectFramework\<close> over the files, for the names of configuration files.\<close>

fun frameworkIndicator :: "string list \<Rightarrow> string option" where
  "frameworkIndicator [] = None"
| "frameworkIndicator (file # fs) =
     (if includesSub file ''next.config'' then Some ''nextjs''
      else if includesSub file ''vite.config'' then Some ''vite''
      else if includesSub file ''astro.config'' then Some ''astro''
      else if includesSub file ''svelte.config'' then Some ''svelte''
      else frameworkIndicator fs)"

definition detectFramework :: "Environment \<Rightarrow> string list \<Rightarrow> ScanOptions \<Rightarrow> string option" where
  "detectFramework env fs options =
     (let fromPackageJson =
        (case filter (\<lambda>file. endsWith file ''package.json'') fs of
           [] \<Rightarrow> None
         | packageJsonFile # others \<Rightarrow>
             (let prefix = take (nat (lastIndexOfSlash packageJsonFile)) packageJsonFile;
                  packageJsonDir = (if prefix = [] then ''.'' else prefix)
              in case detectFrameworkIn env packageJsonDir of
                   None \<Rightarrow> None
                 | Some frameworkKey \<Rightarrow> if frameworkKey = [] then None else Some frameworkKey))
      in case fromPackageJson of
           Some frameworkKey \<Rightarrow> Some frameworkKey
         | None \<Rightarrow> frameworkIndicator fs)"

text \<open>Truthiness of the framework: a key that is not empty, or a configuration.\<close>

fun frameworkTruthy :: "FrameworkOption option \<Rightarrow> bool" where
  "frameworkTruthy None = False"
| "frameworkTruthy (Some (FrameworkKey k)) = (k \<noteq> [])"
| "frameworkTruthy (Some (FrameworkObject c)) = True"

definition resolveFramework ::
  "Environment \<Rightarrow> string list \<Rightarrow> ScanOptions \<Rightarrow> FrameworkOption option" where
  "resolveFramework env fs scanOptions =
     (case framework scanOptions of
        Some fw \<Rightarrow> Some fw
      | None \<Rightarrow> map_option FrameworkKey (detectFramework env fs scanOptions))"

definition finalOptions :: "Environment \<Rightarrow> string list \<Rightarrow> ScanOptions \<Rightarrow> ScanOptions" where
  "finalOptions env fs scanOptions =
     (let fw = resolveFramework env fs scanOptions
      in if frameworkTruthy fw then scanOptions\<lparr>framework := fw\<rparr> else scanOptions)"

definition getEnabledProviders :: "Scanner \<Rightarrow> ScanOptions \<Rightarrow> Provider list" where
  "getEnabledProviders scanner options =
     (let all = map snd (providers scanner);
          included =
            (case includeProviders options of
               None \<Rightarrow> all
             | Some names \<Rightarrow>
                 if names \<noteq> [] then filter (\<lambda>provider. p_name provider \<in> set names) all
                 else all)
      in case excludeProviders options of
           None \<Rightarrow> included
         | Some names \<Rightarrow>
             if names \<noteq> [] then filter (\<lambda>provider. p_name provider \<notin> set names) included
             else included)"

text \<open>
  \<open>runProviders\<close>: each enabled provider is run inside \<open>try\<close>; what it throws is caught and
  its entry is the empty list. The entries go into the result map in the order of the
  providers.
\<close>

definition runProvider :: "string list \<Rightarrow> ScanOptions \<Rightarrow> Provider \<Rightarrow> string \<times> Finding list" where
  "runProvider fs options provider =
     (case p_scan provider fs options of
        Inr found \<Rightarrow> (p_name provider, found)
      | Inl err \<Rightarrow> (p_name provider, []))"

definition runProviders ::
  "Scanner \<Rightarrow> string list \<Rightarrow> ScanOptions \<Rightarrow> (string \<times> Finding list) list" where
  "runProviders scanner fs options =
     foldl (\<lambda>results entry. mapSet (fst entry) (snd entry) results) []
       (map (runProvider fs options) (getEnabledProviders scanner options))"

text \<open>Grouping by name: a finding joins the group of its name or starts a new one.\<close>

definition addToGroup :: "(string \<times> Finding list) list \<Rightarrow> Finding \<Rightarrow> (string \<times> Finding list) list" where
  "addToGroup findingsByName finding =
     (case map_of findingsByName (name finding) of
        Some existing \<Rightarrow> mapSet (name finding) (existing @ [finding]) findingsByName
      | None \<Rightarrow> mapSet (name finding) [finding] findingsByName)"

text \<open>The group of a name in the map of the groups; empty when the name has none.\<close>

definition groupOf :: "(string \<times> Finding list) list \<Rightarrow> string \<Rightarrow> Finding list" where
  "groupOf findingsByName nm = (case map_of findingsByName nm of None \<Rightarrow> [] | Some members \<Rightarrow> members)"

fun mergeGroups :: "(string \<times> Finding list) list \<Rightarrow> error + Finding list" where
  "mergeGroups [] = Inr []"
| "mergeGroups ((nm, members) # remaining) =
     (case (case members of [single] \<Rightarrow> Inr single | _ \<Rightarrow> mergeFindings members) of
        Inl err \<Rightarrow> Inl err
      | Inr merged \<Rightarrow>
          (case mergeGroups remaining of
             Inl err \<Rightarrow> Inl err
           | Inr others \<Rightarrow> Inr (merged # others)))"

text \<open>
  \<open>Array.prototype.sort\<close> with a comparison function is stable; for a comparison that
  is consistent, as \<open>localeCompare\<close> is, its result is that of the stable insertion sort.
\<close>

fun insertSorted :: "('a \<Rightarrow> 'a \<Rightarrow> int) \<Rightarrow> 'a \<Rightarrow> 'a list \<Rightarrow> 'a list" where
  "insertSorted cmp x [] = [x]"
| "insertSorted cmp x (y # ys) =
     (if cmp x y \<le> 0 then x # y # ys else y # insertSorted cmp x ys)"

definition sortWith :: "('a \<Rightarrow> 'a \<Rightarrow> int) \<Rightarrow> 'a list \<Rightarrow> 'a list" where
  "sortWith cmp xs = foldr (insertSorted cmp) xs []"

definition mergeAndDeduplicateFindings ::
  "Environment \<Rightarrow> (string \<times> Finding list) list \<Rightarrow> error + Finding list" where
  "mergeAndDeduplicateFindings env providerResults =
     (let allFindings = concat (map snd providerResults);
          findingsByName = foldl addToGroup [] allFindings
      in case mergeGroups findingsByName of
           Inl err \<Rightarrow> Inl err
         | Inr mergedFindings \<Rightarrow>
             Inr (sortWith (\<lambda>a b. localeCompare env (name a) (name b)) mergedFindings))"

definition groupFindingsBySource :: "Finding list \<Rightarrow> Source \<Rightarrow> int" where
  "groupFindingsBySource found src = int (length (filter (\<lambda>f. source f = src) found))"

record ScanStats =
  totalFiles :: int
  totalFindings :: int
  parseErrors :: int
  scanTime :: int
  durationMs :: int
  filesByProvider :: "Source \<Rightarrow> int"
  variablesByProvider :: "Source \<Rightarrow> int"

record ScanResult =
  sr_findings :: "Finding list"
  sr_scannedAt :: string
  sr_stats :: ScanStats
  sr_framework :: "FrameworkOption option"

text \<open>
  \<open>scan\<close>: what the discovery or the merge throws is thrown again by the \<open>catch\<close> of
  \<open>scan\<close>; what a provider throws is not.
\<close>

definition scan :: "Environment \<Rightarrow> Scanner \<Rightarrow> PathArgument \<Rightarrow> ScanOptions \<Rightarrow> error + ScanResult" where
  "scan env scanner path options =
     (let scanOptions = normalizeOptions env options
      in case discoverFiles env path scanOptions of
           Inl err \<Rightarrow> Inl err
         | Inr fs \<Rightarrow>
             (let fw = resolveFramework env fs scanOptions;
                  found = runProviders scanner fs (finalOptions env fs scanOptions)
              in case mergeAndDeduplicateFindings env found of
                   Inl err \<Rightarrow> Inl err
                 | Inr mergedFindings \<Rightarrow>
                     Inr \<lparr>sr_findings = mergedFindings,
                          sr_scannedAt = scannedAtText env,
                          sr_stats =
                            \<lparr>totalFiles = int (length fs),
                             totalFindings = int (length mergedFindings),
                             parseErrors = 0,
                             scanTime = scanTimeNow env - startTime env,
                             durationMs = durationNow env - startTime env,
                             filesByProvider = (\<lambda>src. 0),
                             variablesByProvider = groupFindingsBySource mergedFindings\<rparr>,
                          sr_framework = (if frameworkTruthy fw then fw else None)\<rparr>))"

text \<open>
  A group is well grouped when it is not empty and holds findings of its name only; a
  finding is merged from a group when it has the name of the group and is required
  exactly when a member is.
\<close>

definition wellGrouped :: "string \<times> Finding list \<Rightarrow> bool" where
  "wellGrouped entry \<longleftrightarrow> snd entry \<noteq> [] \<and> list_all (\<lambda>f. name f = fst entry) (snd entry)"

definition mergedFrom :: "string \<times> Finding list \<Rightarrow> Finding \<Rightarrow> bool" where
  "mergedFrom entry m \<longleftrightarrow> name m = fst entry \<and> required m = list_ex required (snd entry)"

section \<open>Example findings\<close>

text \<open>The findings of the unit test of the merge, and one of another name.\<close>

definition exampleAstFinding :: Finding where
  "exampleAstFinding =
     createFinding ''TEST_VAR'' Ast
       [createFileRef id ''/path/to/file1.ts'' 10 5 None]
       (noOptions\<lparr>opt_required := Some True\<rparr>)"

definition exampleDotenvFinding :: Finding where
  "exampleDotenvFinding =
     createFinding ''TEST_VAR'' Dotenv
       [createFileRef id ''/path/to/file2.ts'' 20 10 None]
       (noOptions\<lparr>opt_required := Some False, opt_defaultValue := Some ''default-value''\<rparr>)"

definition exampleOtherFinding :: Finding where
  "exampleOtherFinding =
     createFinding ''OTHER_VAR'' Shell
       [createFileRef id ''/path/to/run.sh'' 3 7 None] noOptions"


text \<open>The line \<open>NAME="hello world" # comment\<close> of a declaration file.\<close>

definition exampleEnvLine :: string where
  "exampleEnvLine = ''NAME='' @ [dquote] @ ''hello world'' @ [dquote] @ '' # comment''"

text \<open>
  Options with nothing set, and the syntax of three statements, as the paths that the
  traversal gives to the visitors: \<open>const v = process.env.NAME;\<close> and
  \<open>const v = process.env['NAME'];\<close> (the path of the access),
  \<open>const { API_KEY, SECRET } = process.env;\<close> and \<open>const { KEY = 42 } = process.env;\<close>
  (the path of the declarator), \<open>const port = process.env.PORT || 3000;\<close> and
  \<open>const url = import.meta.env.VITE_PUBLIC_URL;\<close>.
\<close>

definition noScanOptions :: ScanOptions where
  "noScanOptions =
     \<lparr>dir = None, includeGlobs = None, excludeGlobs = None, framework = None,
      publicPrefixes = None, maxFileSize = None, followSymlinks = None, cacheDir = None,
      cache = None, respectGitignore = None, debug = None, includeProviders = None,
      excludeProviders = None\<rparr>"

definition processEnvNode :: Node where
  "processEnvNode = MemberExpression (Identifier ''process'') (Identifier ''env'')"

definition dotAccessPath :: NodePath where
  "dotAccessPath =
     \<lparr>node = MemberExpression processEnvNode (Identifier ''NAME''),
      loc = Some \<lparr>loc_start = \<lparr>pos_line = 1, pos_column = 10\<rparr>,
                  loc_end = \<lparr>pos_line = 1, pos_column = 26\<rparr>\<rparr>,
      parents = [VariableDeclarator (Identifier ''v'')
                   (Some (MemberExpression processEnvNode (Identifier ''NAME''))),
                 OtherNode ''VariableDeclaration'', OtherNode ''Program'', OtherNode ''File'']\<rparr>"

definition bracketAccessPath :: NodePath where
  "bracketAccessPath =
     \<lparr>node = MemberExpression processEnvNode (StringLiteral ''NAME''),
      loc = Some \<lparr>loc_start = \<lparr>pos_line = 2, pos_column = 10\<rparr>,
                  loc_end = \<lparr>pos_line = 2, pos_column = 29\<rparr>\<rparr>,
      parents = [VariableDeclarator (Identifier ''v'')
                   (Some (MemberExpression processEnvNode (StringLiteral ''NAME''))),
                 OtherNode ''VariableDeclaration'', OtherNode ''Program'', OtherNode ''File'']\<rparr>"

definition plainDestructuringPath :: NodePath where
  "plainDestructuringPath =
     \<lparr>node = VariableDeclarator
               (ObjectPattern [ObjectProperty (Identifier ''API_KEY'') (Identifier ''API_KEY''),
                               ObjectProperty (Identifier ''SECRET'') (Identifier ''SECRET'')])
               (Some processEnvNode),
      loc = Some \<lparr>loc_start = \<lparr>pos_line = 3, pos_column = 6\<rparr>,
                  loc_end = \<lparr>pos_line = 3, pos_column = 39\<rparr>\<rparr>,
      parents = [OtherNode ''VariableDeclaration'', OtherNode ''Program'', OtherNode ''File'']\<rparr>"

definition numericDefaultPath :: NodePath where
  "numericDefaultPath =
     \<lparr>node = VariableDeclarator
               (ObjectPattern [ObjectProperty (Identifier ''KEY'')
                                 (AssignmentPattern (Identifier ''KEY'') (OtherNode ''NumericLiteral''))])
               (Some processEnvNode),
      loc = Some \<lparr>loc_start = \<lparr>pos_line = 1, pos_column = 6\<rparr>,
                  loc_end = \<lparr>pos_line = 1, pos_column = 30\<rparr>\<rparr>,
      parents = [OtherNode ''VariableDeclaration'', OtherNode ''Program'', OtherNode ''File'']\<rparr>"

definition numericFallbackPath :: NodePath where
  "numericFallbackPath =
     \<lparr>node = MemberExpression processEnvNode (Identifier ''PORT''),
      loc = Some \<lparr>loc_start = \<lparr>pos_line = 1, pos_column = 13\<rparr>,
                  loc_end = \<lparr>pos_line = 1, pos_column = 29\<rparr>\<rparr>,
      parents = [LogicalExpression ''||'' (MemberExpression processEnvNode (Identifier ''PORT''))
                   (OtherNode ''NumericLiteral''),
                 OtherNode ''VariableDeclarator'', OtherNode ''VariableDeclaration'',
                 OtherNode ''Program'', OtherNode ''File'']\<rparr>"

definition importMetaAccessPath :: NodePath where
  "importMetaAccessPath =
     \<lparr>node = MemberExpression
               (MemberExpression (MetaProperty (Identifier ''import'') (Identifier ''meta''))
                  (Identifier ''env''))
               (Identifier ''VITE_PUBLIC_URL''),
      loc = Some \<lparr>loc_start = \<lparr>pos_line = 1, pos_column = 18\<rparr>,
                  loc_end = \<lparr>pos_line = 1, pos_column = 49\<rparr>\<rparr>,
      parents = [OtherNode ''VariableDeclarator'', OtherNode ''VariableDeclaration'',
                 OtherNode ''Program'', OtherNode ''File'']\<rparr>"

definition processEnvPath :: NodePath where
  "processEnvPath =
     \<lparr>node = processEnvNode, loc = None,
      parents = [OtherNode ''VariableDeclarator'', OtherNode ''VariableDeclaration'',
                 OtherNode ''Program'', OtherNode ''File'']\<rparr>"

definition exampleVisits :: "Visit list" where
  "exampleVisits =
     [MemberExpressionVisit dotAccessPath, MemberExpressionVisit bracketAccessPath,
      VariableDeclaratorVisit plainDestructuringPath, MemberExpressionVisit processEnvPath]"

text \<open>
  An environment, and a scanner whose two providers throw on every call; the comparison
  is the one of the codes of the characters, a stand-in for \<open>localeCompare\<close>.
\<close>

fun compareCodes :: "string \<Rightarrow> string \<Rightarrow> int" where
  "compareCodes [] [] = 0"
| "compareCodes [] (b # bs) = -1"
| "compareCodes (a # as) [] = 1"
| "compareCodes (a # as) (b # bs) =
     (if (of_char a :: nat) < of_char b then -1
      else if (of_char b :: nat) < of_char a then 1
      else compareCodes as bs)"

definition exampleEnvironment :: Environment where
  "exampleEnvironment =
     \<lparr>cwd = ''/app'',
      fileDiscovery = (\<lambda>options. Inr [''/app/src/app.ts'', ''/app/.env'']),
      detectFrameworkIn = (\<lambda>rootDir. None),
      localeCompare = compareCodes,
      startTime = 1000, scannedAtText = ''2024-01-01T00:00:00.000Z'',
      scanTimeNow = 1005, durationNow = 1005\<rparr>"

definition failingProvider :: "string \<Rightarrow> Source \<Rightarrow> Provider" where
  "failingProvider nm src =
     \<lparr>p_name = nm, p_source = src, p_extensions = [],
      p_scan = (\<lambda>fs options. Inl (Error ''provider failed''))\<rparr>"

definition failingScanner :: Scanner where
  "failingScanner =
     registerProvider (registerProvider \<lparr>providers = []\<rparr> (failingProvider ''ast'' Ast))
       (failingProvider ''dotenv'' Dotenv)"

text \<open>The visit of the statement \<open>const url = import.meta.env.VITE_PUBLIC_URL;\<close> alone.\<close>

definition importMetaVisits :: "Visit list" where
  "importMetaVisits = [MemberExpressionVisit importMetaAccessPath]"

section \<open>Properties of the merge\<close>

lemma mergeFindings_two_or_more:
  assumes "list_all (\<lambda>f. name f = name f0) (f0 # f1 # fs)"
  shows "\<exists>m. mergeFindings (f0 # f1 # fs) = Inr m
           \<and> required m = list_ex required (f0 # f1 # fs)
           \<and> name m = name f0"
  using assms by (simp add: mergeFindings_def createFinding_def Let_def)

lemmas example_findings_defs =
  exampleAstFinding_def exampleDotenvFinding_def exampleOtherFinding_def
  createFinding_def createFileRef_def noOptions_def

text \<open>
  C1. For every non-empty list of findings that all carry the same variable name,
  \<open>mergeFindings\<close> returns a finding (it does not throw), and that finding is required
  exactly when at least one of the inputs is required.
\<close>

theorem mergeFindings_required_is_or:
  assumes "findings \<noteq> []"
    and "\<forall>f \<in> set findings. \<forall>g \<in> set findings. name f = name g"
  shows "\<exists>m. mergeFindings findings = Inr m
           \<and> (required m \<longleftrightarrow> (\<exists>f \<in> set findings. required f))"
proof (cases findings)
  case Nil
  with assms(1) show ?thesis by simp
next
  case (Cons f0 rest)
  show ?thesis
  proof (cases rest)
    case Nil
    with Cons show ?thesis by (simp add: mergeFindings_def)
  next
    case (Cons f1 fs)
    with \<open>findings = f0 # rest\<close> have shape: "findings = f0 # f1 # fs" by simp
    then have first: "f0 \<in> set findings" by simp
    have "\<forall>f \<in> set findings. name f = name f0"
    proof
      fix f assume "f \<in> set findings"
      with first assms(2) show "name f = name f0" by blast
    qed
    then have "list_all (\<lambda>f. name f = name f0) (f0 # f1 # fs)"
      unfolding shape list_all_iff .
    from mergeFindings_two_or_more [OF this]
    obtain m where m: "mergeFindings (f0 # f1 # fs) = Inr m"
      "required m = list_ex required (f0 # f1 # fs)" by blast
    then show ?thesis unfolding shape list_ex_iff by blast
  qed
qed

theorem mergeFindings_required_is_or_witness:
  "name exampleDotenvFinding = name exampleAstFinding
   \<and> \<not> required exampleDotenvFinding \<and> required exampleAstFinding
   \<and> (\<exists>m. mergeFindings [exampleDotenvFinding, exampleAstFinding] = Inr m \<and> required m)"
proof -
  have nonempty: "[exampleDotenvFinding, exampleAstFinding] \<noteq> []" by simp
  have same: "\<forall>f \<in> set [exampleDotenvFinding, exampleAstFinding].
        \<forall>g \<in> set [exampleDotenvFinding, exampleAstFinding]. name f = name g"
    by (simp add: example_findings_defs)
  have req: "\<exists>f \<in> set [exampleDotenvFinding, exampleAstFinding]. required f"
    by (simp add: example_findings_defs)
  have "name exampleDotenvFinding = name exampleAstFinding"
    and "\<not> required exampleDotenvFinding" and "required exampleAstFinding"
    by (simp_all add: example_findings_defs)
  with mergeFindings_required_is_or [OF nonempty same] req
  show ?thesis by blast
qed

text \<open>
  C7. Merging the empty list of findings throws (\<open>Inl\<close>): no finding is returned.
\<close>

theorem mergeFindings_empty_throws:
  "mergeFindings [] = Inl (Error ''Cannot merge empty findings array'')"
  by (simp add: mergeFindings_def)

text \<open>
  C8. A required finding without a default value, merged with a finding of the same name
  that is not required and carries a non-empty default value, gives (in either order) a
  merged finding that is required and carries that default value.
\<close>

theorem mergeFindings_required_with_default:
  assumes "name f1 = name f2"
    and "required f1" and "defaultValue f1 = None"
    and "\<not> required f2" and "defaultValue f2 = Some d" and "d \<noteq> []"
  shows "(\<exists>m. mergeFindings [f1, f2] = Inr m \<and> required m \<and> defaultValue m = Some d)
       \<and> (\<exists>m. mergeFindings [f2, f1] = Inr m \<and> required m \<and> defaultValue m = Some d)"
  using assms by (simp add: mergeFindings_def createFinding_def Let_def)

theorem mergeFindings_required_with_default_witness:
  "name exampleAstFinding = name exampleDotenvFinding
   \<and> required exampleAstFinding \<and> defaultValue exampleAstFinding = None
   \<and> \<not> required exampleDotenvFinding
   \<and> defaultValue exampleDotenvFinding = Some ''default-value''
   \<and> (\<exists>m. mergeFindings [exampleAstFinding, exampleDotenvFinding] = Inr m
          \<and> required m \<and> defaultValue m = Some ''default-value'')"
  using mergeFindings_required_with_default
    [of exampleAstFinding exampleDotenvFinding "''default-value''"]
  by (simp add: example_findings_defs)

text \<open>
  C9. A list of two or more findings in which two names differ is not merged:
  \<open>mergeFindings\<close> throws the error "All findings must have the same name to merge".
\<close>

theorem mergeFindings_mixed_names_throws:
  assumes "2 \<le> length findings"
    and "\<exists>f \<in> set findings. \<exists>g \<in> set findings. name f \<noteq> name g"
  shows "mergeFindings findings = Inl (Error ''All findings must have the same name to merge'')"
proof -
  from assms(1) obtain f0 f1 fs where shape: "findings = f0 # f1 # fs"
    by (cases findings; cases "tl findings") auto
  have "\<not> list_all (\<lambda>f. name f = name f0) findings"
  proof
    assume "list_all (\<lambda>f. name f = name f0) findings"
    then have "\<forall>f \<in> set findings. name f = name f0" by (simp add: list_all_iff)
    with assms(2) show False by auto
  qed
  with shape show ?thesis by (simp add: mergeFindings_def Let_def)
qed

theorem mergeFindings_mixed_names_throws_witness:
  "2 \<le> length [exampleAstFinding, exampleOtherFinding]
   \<and> (\<exists>f \<in> set [exampleAstFinding, exampleOtherFinding].
        \<exists>g \<in> set [exampleAstFinding, exampleOtherFinding]. name f \<noteq> name g)
   \<and> mergeFindings [exampleAstFinding, exampleOtherFinding]
       = Inl (Error ''All findings must have the same name to merge'')"
proof -
  have len: "2 \<le> length [exampleAstFinding, exampleOtherFinding]" by simp
  have differ: "\<exists>f \<in> set [exampleAstFinding, exampleOtherFinding].
        \<exists>g \<in> set [exampleAstFinding, exampleOtherFinding]. name f \<noteq> name g"
    by (rule bexI [of _ exampleAstFinding], rule bexI [of _ exampleOtherFinding])
       (simp_all add: example_findings_defs)
  from mergeFindings_mixed_names_throws [OF len differ] len differ
  show ?thesis by blast
qed

section \<open>Properties of the runtime type guards\<close>

lemma isValidSource_sourceTag: "isValidSource (JString (sourceTag s)) \<longleftrightarrow> s \<noteq> Ast"
  by (cases s) simp_all

lemma isFinding_findingValue: "isFinding (findingValue f) \<longleftrightarrow> source f \<noteq> Ast"
  by (cases "source f") (simp_all add: findingValue_def getProperty_def)

section \<open>Properties of the declaration-file provider\<close>

lemma exampleEnvLine_chars:
  "exampleEnvLine =
     [CHR ''N'', CHR ''A'', CHR ''M'', CHR ''E'', CHR ''='', CHR 0x22,
      CHR ''h'', CHR ''e'', CHR ''l'', CHR ''l'', CHR ''o'', CHR '' '',
      CHR ''w'', CHR ''o'', CHR ''r'', CHR ''l'', CHR ''d'', CHR 0x22,
      CHR '' '', CHR ''#'', CHR '' '',
      CHR ''c'', CHR ''o'', CHR ''m'', CHR ''m'', CHR ''e'', CHR ''n'', CHR ''t'']"
  by (simp add: exampleEnvLine_def dquote_def)

lemma split_exampleEnvLine: "split exampleEnvLine [CHR 0x0A] = [exampleEnvLine]"
  by (simp add: exampleEnvLine_chars split_def startsWith_def)

lemma trim_exampleEnvLine: "trim exampleEnvLine = exampleEnvLine"
  by (simp add: exampleEnvLine_chars trim_def isWhiteSpace_def)

lemma parseEnvLine_exampleEnvLine:
  "parseEnvLine exampleEnvLine n =
     Some \<lparr>el_name = ''NAME'', el_defaultValue = Some ''hello world'',
           hasDefault = True, el_comment = Some ''comment''\<rparr>"
  by (simp add: exampleEnvLine_chars parseEnvLine_def matchKeyValue_def parseEnvValue_def
      trim_def isWhiteSpace_def isLineTerminator_def isIdentStart_def isIdentChar_def
      isValidEnvVarName_def startsWith_def endsWith_def slice_1_m1_def toUpperCase_def
      upperChar_def placeholders_def dquote_def squote_def Let_def)

text \<open>
  C5. Scanning a declaration file whose content is the line
  \<open>NAME="hello world" # comment\<close> yields exactly one finding: its name is \<open>NAME\<close>, its
  default value is \<open>hello world\<close> without the quotes, it is not required, and its notes
  are the one note \<open>comment\<close>. This holds for every file path and every option.
\<close>

theorem dotenv_example_line:
  "map (\<lambda>f. (name f, defaultValue f, required f, f_notes f))
     (dotenvScanFile resolve (Some exampleEnvLine) fp options)
   = [(''NAME'', Some ''hello world'', False, Some [''comment''])]"
proof -
  have nonempty: "exampleEnvLine \<noteq> []" and nohash: "\<not> startsWith exampleEnvLine ''#''"
    by (simp_all add: exampleEnvLine_chars startsWith_def)
  show ?thesis
    by (simp add: dotenvScanFile_def dotenvLineFinding_def split_exampleEnvLine
        trim_exampleEnvLine parseEnvLine_exampleEnvLine nonempty nohash createFinding_def
        Let_def)
qed

lemma parseEnvLine_comment_balanced:
  assumes "parseEnvLine ln n = Some e" and "el_comment e \<noteq> None"
  shows "0 < findIndex (\<lambda>c. c = CHR ''#'') ln
       \<and> even (length (filter (\<lambda>c. c = squote) (take (nat (findIndex (\<lambda>c. c = CHR ''#'') ln)) ln)))
       \<and> even (length (filter (\<lambda>c. c = dquote) (take (nat (findIndex (\<lambda>c. c = CHR ''#'') ln)) ln)))"
  using assms
  by (auto simp: parseEnvLine_def Let_def split: option.splits if_splits prod.splits)

section \<open>Properties of the shell-heuristics provider\<close>

lemmas shell_match_defs =
  extractVariableReferences_def referenceOfMatch_def matchVarRefAt_def matchBraced_def
  readIdentifier_def readDefaultAndBrace_def startsWith_def endsWith_def
  isIdentStart_def isIdentChar_def split_def partOrEmpty_def stripQuotes_def
  slice_1_m1_def dquote_def squote_def Let_def

text \<open>
  C4. The claim is that a reference \<open>${NAME:=default}\<close> is read like \<open>${NAME:-default}\<close>,
  with \<open>hasDefault = true\<close> and the default value. The code does not do so: the
  pattern \<open>varRef\<close> admits only \<open>:-\<close> inside the braces, so on the line
  \<open>echo ${NAME:=default}\<close> nothing matches and no reference is produced; the branch of
  \<open>extractVariableReferences\<close> for \<open>:=\<close> is never reached. The lemmas after the theorem
  give the \<open>:-\<close> form on the same line, and the general case.
\<close>

theorem assign_default_form_not_matched:
  "extractVariableReferences ''echo ${NAME:=default}'' = []"
  by (simp add: shell_match_defs)

lemma use_default_form_matched:
  "extractVariableReferences ''echo ${NAME:-default}'' =
     [\<lparr>r_name = ''NAME'', r_hasDefault = True, r_defaultValue = Some ''default'',
       startColumn = 6, endColumn = 21\<rparr>]"
  by (simp add: shell_match_defs)

lemma matchVarRefAt_no_dollar: "CHR ''$'' \<noteq> c \<Longrightarrow> matchVarRefAt (c # cs) = None"
  by (auto simp: matchVarRefAt_def)

lemma execAll_no_dollar: "CHR ''$'' \<notin> set s \<Longrightarrow> execAll i s = []"
  by (induction s arbitrary: i) (simp_all add: matchVarRefAt_no_dollar)

lemma execAll_skip_prefix:
  "CHR ''$'' \<notin> set pre \<Longrightarrow> execAll i (pre @ s) = execAll (i + length pre) s"
  by (induction pre arbitrary: i) (simp_all add: matchVarRefAt_no_dollar)

lemma readIdentifier_name:
  assumes "isValidEnvVarName nm" and "\<not> isIdentChar c"
  shows "readIdentifier (nm @ c # rest) = Some (nm, c # rest)"
proof (cases nm)
  case Nil
  with assms(1) show ?thesis by (simp add: isValidEnvVarName_def)
next
  case (Cons a as)
  with assms(1) have start: "isIdentStart a" and cont: "\<forall>x \<in> set as. isIdentChar x"
    by (simp_all add: isValidEnvVarName_def list_all_iff)
  from cont assms(2) have "takeWhile isIdentChar (as @ c # rest) = as"
    and "dropWhile isIdentChar (as @ c # rest) = c # rest"
    by (simp_all add: takeWhile_append2 dropWhile_append2)
  with Cons start show ?thesis by (simp add: readIdentifier_def)
qed

lemma matchVarRefAt_assign_default:
  assumes "isValidEnvVarName nm"
  shows "matchVarRefAt (''${'' @ nm @ '':='' @ rest) = None"
proof -
  have colon: "\<not> isIdentChar CHR '':''" and brace: "\<not> isIdentStart CHR ''{''"
    by (simp_all add: isIdentChar_def isIdentStart_def)
  from readIdentifier_name [OF assms colon]
  have "readIdentifier (nm @ '':='' @ rest) = Some (nm, '':='' @ rest)" by simp
  then have "matchBraced (''{'' @ nm @ '':='' @ rest) = None"
    by (simp add: matchBraced_def readDefaultAndBrace_def startsWith_def)
  moreover from brace have "readIdentifier (''{'' @ nm @ '':='' @ rest) = None"
    by (simp add: readIdentifier_def)
  ultimately show ?thesis by (simp add: matchVarRefAt_def)
qed

lemma assign_default_form_never_matched:
  assumes "isValidEnvVarName nm"
    and "CHR ''$'' \<notin> set pre" and "CHR ''$'' \<notin> set rest"
  shows "extractVariableReferences (pre @ ''${'' @ nm @ '':='' @ rest) = []"
proof -
  from assms(1) have "\<forall>x \<in> set nm. isIdentChar x"
    by (cases nm) (auto simp: isValidEnvVarName_def list_all_iff isIdentChar_def)
  then have "CHR ''$'' \<notin> set nm" by (auto simp: isIdentChar_def isIdentStart_def)
  with assms(3) have tail: "CHR ''$'' \<notin> set (''{'' @ nm @ '':='' @ rest)" by simp
  have "execAll i (''${'' @ nm @ '':='' @ rest) = []" for i
    using matchVarRefAt_assign_default [OF assms(1), of rest] execAll_no_dollar [OF tail]
    by simp
  with execAll_skip_prefix [OF assms(2)] show ?thesis
    by (simp add: extractVariableReferences_def)
qed

section \<open>Properties of the source-semantics provider\<close>

lemmas ast_example_defs =
  exampleVisits_def dotAccessPath_def bracketAccessPath_def plainDestructuringPath_def
  numericDefaultPath_def numericFallbackPath_def processEnvPath_def processEnvNode_def
  importMetaAccessPath_def
  noScanOptions_def

lemmas ast_provider_defs =
  extractEnvVariables_def analyzeProcessEnvAccess_def analyzeImportMetaEnvAccess_def
  analyzeDestructuring_def destructuringSource_def destructuredProperty_def
  assignmentPatternRight_def analyzeUsageContext_def parentGuard_def
  isIfStatementWithTest_def stringLiteralValue_def isProcessEnv_def isImportMetaEnv_def
  isMetaEnvObject_def nodeName_def createEnvVarNode_def convertNodesToFindings_def
  addNode_def findingKey_def createFinding_def createFileRef_def isPublicVariable_def

lemma createEnvVarNode_fields [simp]:
  "n_source (createEnvVarNode nm src path ctx) = src"
  "n_name (createEnvVarNode nm src path ctx) = nm"
  "hasGuards (createEnvVarNode nm src path ctx) = ctx_hasGuards ctx"
  by (simp_all add: createEnvVarNode_def)

lemma analyzeProcessEnvAccess_source:
  "analyzeProcessEnvAccess path = Some n \<Longrightarrow> n_source n = Ast"
  by (auto simp: analyzeProcessEnvAccess_def split: Node.splits if_splits)

lemma analyzeImportMetaEnvAccess_source:
  "analyzeImportMetaEnvAccess path = Some n \<Longrightarrow> n_source n = Importmeta"
  by (auto simp: analyzeImportMetaEnvAccess_def split: Node.splits if_splits)

lemma destructuredProperty_source:
  "n \<in> set (destructuredProperty src path prop) \<Longrightarrow> n_source n = src"
  by (auto simp: destructuredProperty_def Let_def split: Node.splits option.splits)

lemma isProcessEnv_not_isImportMetaEnv: "isProcessEnv i \<Longrightarrow> \<not> isImportMetaEnv i"
  by (auto simp: isProcessEnv_def isImportMetaEnv_def nodeName_def split: Node.splits)

lemma analyzeDestructuring_source:
  assumes "n \<in> set (analyzeDestructuring path)"
    and "node path = VariableDeclarator pattern (Some init)"
  shows "isProcessEnv init \<Longrightarrow> n_source n = Ast"
    and "isImportMetaEnv init \<Longrightarrow> n_source n = Importmeta"
  using assms isProcessEnv_not_isImportMetaEnv [of init]
  by (auto simp: analyzeDestructuring_def destructuringSource_def
      dest: destructuredProperty_source split: Node.splits option.splits if_splits)

lemma set_mapSet: "set (mapSet k v m) \<subseteq> insert (k, v) (set m)"
  by (induction m) (auto split: if_splits)

lemma addNode_observed:
  assumes "list_all (observedBy nodes) (map snd m)" and "n \<in> set nodes"
  shows "list_all (observedBy nodes) (map snd (addNode resolve fp prefixes m n))"
proof -
  have new: "observedBy nodes (createFinding (n_name n) (n_source n) fs opts)" for fs opts
    using assms(2) by (auto simp: observedBy_def createFinding_def list_ex_iff)
  have "list_all (observedBy nodes) (map snd (mapSet k v m))" if "observedBy nodes v" for k v
    using set_mapSet [of k v m] assms(1) that by (auto simp: list_all_iff)
  with new show ?thesis
    by (simp add: addNode_def Let_def split: option.splits)
qed

lemma foldl_addNode_observed:
  assumes "list_all (observedBy nodes) (map snd m)" and "set ns \<subseteq> set nodes"
  shows "list_all (observedBy nodes) (map snd (foldl (addNode resolve fp prefixes) m ns))"
  using assms
proof (induction ns arbitrary: m)
  case Nil
  then show ?case by simp
next
  case (Cons n ns)
  from Cons.prems have "list_all (observedBy nodes) (map snd (addNode resolve fp prefixes m n))"
    by (intro addNode_observed) auto
  with Cons.IH [of "addNode resolve fp prefixes m n"] Cons.prems(2) show ?case by simp
qed

lemma convertNodesToFindings_observed:
  "f \<in> set (convertNodesToFindings resolve nodes fp options) \<Longrightarrow> observedBy nodes f"
  using foldl_addNode_observed [of nodes "[]" nodes resolve fp]
  by (auto simp: convertNodesToFindings_def list_all_iff)

lemma sourceTag_key_inj:
  "sourceTag s @ '':'' @ nm = sourceTag s' @ '':'' @ nm' \<Longrightarrow> s = s' \<and> nm = nm'"
  by (cases s; cases s'; simp)

lemma map_fst_mapSet: "set (map fst (mapSet k v m)) = insert k (set (map fst m))"
  by (induction k v m rule: mapSet.induct) (auto simp: insert_commute)

lemma keys_mapSet: "fst ` set (mapSet k v m) = insert k (fst ` set m)"
  using map_fst_mapSet [of k v m] by simp

lemma keyedBySource_mapSet:
  assumes "keyedBySource m" and "k = sourceTag (source v) @ '':'' @ name v"
  shows "keyedBySource (mapSet k v m)"
  using assms set_mapSet [of k v m] by (auto simp: keyedBySource_def list_all_iff)

lemma addNode_keyed:
  "keyedBySource m \<Longrightarrow> keyedBySource (addNode resolve fp prefixes m n)"
  by (auto simp: addNode_def Let_def findingKey_def createFinding_def
      intro!: keyedBySource_mapSet split: option.splits)

lemma addNode_keys:
  "fst ` set (addNode resolve fp prefixes m n) = insert (findingKey n) (fst ` set m)"
  by (simp add: addNode_def Let_def keys_mapSet split: option.splits)

lemma foldl_addNode_keyed:
  "keyedBySource m \<Longrightarrow> keyedBySource (foldl (addNode resolve fp prefixes) m ns)"
  by (induction ns arbitrary: m) (simp_all add: addNode_keyed)

lemma foldl_addNode_keys:
  "fst ` set (foldl (addNode resolve fp prefixes) m ns) = fst ` set m \<union> findingKey ` set ns"
  by (induction ns arbitrary: m) (auto simp: addNode_keys)

lemma convertNodesToFindings_covers:
  assumes "n \<in> set nodes"
  shows "\<exists>f \<in> set (convertNodesToFindings resolve nodes fp options).
           name f = n_name n \<and> source f = n_source n"
proof -
  let ?prefixes = "case publicPrefixes options of None \<Rightarrow> [] | Some ps \<Rightarrow> ps"
  let ?m = "foldl (addNode resolve fp ?prefixes) [] nodes"
  have "keyedBySource ?m"
    by (rule foldl_addNode_keyed) (simp add: keyedBySource_def)
  moreover from assms have "findingKey n \<in> fst ` set ?m"
    by (simp add: foldl_addNode_keys)
  then obtain f where f: "(findingKey n, f) \<in> set ?m" by auto
  ultimately have "findingKey n = sourceTag (source f) @ '':'' @ name f"
    by (auto simp: keyedBySource_def list_all_iff)
  then have "source f = n_source n \<and> name f = n_name n"
    using sourceTag_key_inj [of "n_source n" "n_name n" "source f" "name f"]
    by (simp add: findingKey_def)
  moreover from f have "f \<in> set (convertNodesToFindings resolve nodes fp options)"
    by (force simp: convertNodesToFindings_def)
  ultimately show ?thesis by auto
qed

text \<open>
  C2, as the code has it. An observation of a process-environment access carries the
  source tag \<open>ast\<close>, not \<open>process\<close>: the member access \<open>process.env.NAME\<close> or
  \<open>process.env['NAME']\<close>, and every key destructured from \<open>process.env\<close>. An access of
  \<open>import.meta.env\<close> carries \<open>importmeta\<close>. Every observation has a finding of its name and
  its source tag among those that \<open>convertNodesToFindings\<close> returns, and every finding
  returned has the name and the source tag of one of the observations.
\<close>

theorem process_env_observation_tagged_ast:
  "(analyzeProcessEnvAccess path = Some n \<longrightarrow> n_source n = Ast)
   \<and> (node path = VariableDeclarator pattern (Some init) \<and> isProcessEnv init
        \<and> n \<in> set (analyzeDestructuring path) \<longrightarrow> n_source n = Ast)
   \<and> (analyzeImportMetaEnvAccess path = Some n \<longrightarrow> n_source n = Importmeta)
   \<and> (n \<in> set nodes
        \<longrightarrow> (\<exists>g \<in> set (convertNodesToFindings resolve nodes fp options).
               name g = n_name n \<and> source g = n_source n))
   \<and> (f \<in> set (convertNodesToFindings resolve nodes fp options)
        \<longrightarrow> (\<exists>m \<in> set nodes. name f = n_name m \<and> source f = n_source m))"
  using analyzeProcessEnvAccess_source [of path n]
    analyzeImportMetaEnvAccess_source [of path n]
    analyzeDestructuring_source(1) [of n path pattern init]
    convertNodesToFindings_covers [of n nodes resolve fp options]
    convertNodesToFindings_observed [of f resolve nodes fp options]
  by (auto simp: observedBy_def list_ex_iff)

theorem process_env_observation_tagged_ast_witness:
  "(\<exists>n. analyzeProcessEnvAccess dotAccessPath = Some n \<and> n_source n = Ast)
   \<and> (\<exists>n. n \<in> set (analyzeDestructuring plainDestructuringPath) \<and> n_source n = Ast)
   \<and> (\<exists>n. analyzeImportMetaEnvAccess importMetaAccessPath = Some n
          \<and> n_source n = Importmeta)
   \<and> (\<exists>g. g \<in> set (convertNodesToFindings id (extractEnvVariables exampleVisits)
                        ''/app/config.ts'' noScanOptions)
          \<and> name g = ''NAME'' \<and> source g = Ast)
   \<and> (\<exists>f m. f \<in> set (convertNodesToFindings id (extractEnvVariables exampleVisits)
                          ''/app/config.ts'' noScanOptions)
          \<and> m \<in> set (extractEnvVariables exampleVisits)
          \<and> name f = n_name m \<and> source f = n_source m)"
proof -
  let ?access = "createEnvVarNode ''NAME'' Ast dotAccessPath (analyzeUsageContext dotAccessPath)"
  have access: "analyzeProcessEnvAccess dotAccessPath = Some ?access"
    by (simp add: analyzeProcessEnvAccess_def dotAccessPath_def processEnvNode_def
        isProcessEnv_def nodeName_def)
  from process_env_observation_tagged_ast [where path = dotAccessPath and n = ?access] access
  have first: "\<exists>n. analyzeProcessEnvAccess dotAccessPath = Some n \<and> n_source n = Ast"
    by blast
  let ?key = "createEnvVarNode ''SECRET'' Ast plainDestructuringPath
                \<lparr>ctx_hasGuards = False, ctx_defaultValue = None\<rparr>"
  let ?pattern = "ObjectPattern [ObjectProperty (Identifier ''API_KEY'') (Identifier ''API_KEY''),
                                ObjectProperty (Identifier ''SECRET'') (Identifier ''SECRET'')]"
  have declarator: "node plainDestructuringPath = VariableDeclarator ?pattern (Some processEnvNode)"
    and root: "isProcessEnv processEnvNode"
    and key: "?key \<in> set (analyzeDestructuring plainDestructuringPath)"
    by (simp_all add: plainDestructuringPath_def processEnvNode_def analyzeDestructuring_def
        destructuringSource_def destructuredProperty_def assignmentPatternRight_def
        isProcessEnv_def isImportMetaEnv_def nodeName_def)
  from process_env_observation_tagged_ast
    [where path = plainDestructuringPath and n = ?key and pattern = ?pattern
       and init = processEnvNode] declarator root key
  have second: "\<exists>n. n \<in> set (analyzeDestructuring plainDestructuringPath) \<and> n_source n = Ast"
    by blast
  let ?meta = "createEnvVarNode ''VITE_PUBLIC_URL'' Importmeta importMetaAccessPath
                 (analyzeUsageContext importMetaAccessPath)"
  have meta: "analyzeImportMetaEnvAccess importMetaAccessPath = Some ?meta"
    by (simp add: analyzeImportMetaEnvAccess_def importMetaAccessPath_def isMetaEnvObject_def
        nodeName_def)
  from process_env_observation_tagged_ast [where path = importMetaAccessPath and n = ?meta] meta
  have third: "\<exists>n. analyzeImportMetaEnvAccess importMetaAccessPath = Some n
      \<and> n_source n = Importmeta"
    by blast
  let ?findings = "convertNodesToFindings id (extractEnvVariables exampleVisits)
                     ''/app/config.ts'' noScanOptions"
  have "?findings \<noteq> []"
    by (simp add: ast_example_defs ast_provider_defs)
  then obtain f where f: "f \<in> set ?findings" by (cases ?findings) auto
  from process_env_observation_tagged_ast
    [where f = f and resolve = id and nodes = "extractEnvVariables exampleVisits"
       and fp = "''/app/config.ts''" and options = noScanOptions] f
  have fourth: "\<exists>f m. f \<in> set ?findings \<and> m \<in> set (extractEnvVariables exampleVisits)
      \<and> name f = n_name m \<and> source f = n_source m"
    by blast
  have observed: "?access \<in> set (extractEnvVariables exampleVisits)"
    using access by (simp add: extractEnvVariables_def exampleVisits_def)
  from process_env_observation_tagged_ast
    [where n = ?access and resolve = id and nodes = "extractEnvVariables exampleVisits"
       and fp = "''/app/config.ts''" and options = noScanOptions] observed
  have fifth: "\<exists>g. g \<in> set ?findings \<and> name g = ''NAME'' \<and> source g = Ast"
    by auto
  from first second third fourth fifth show ?thesis by blast
qed

text \<open>
  The claim C2 as stated fails: for \<open>process.env.NAME\<close>, \<open>process.env['NAME']\<close> and
  \<open>const { API_KEY, SECRET } = process.env\<close> the three findings are tagged \<open>ast\<close>.
\<close>

theorem process_env_observation_counterexample:
  "map (sourceTag \<circ> source)
     (convertNodesToFindings id (extractEnvVariables exampleVisits) ''/app/config.ts''
        noScanOptions)
   = [''ast'', ''ast'', ''ast'']"
  by (simp add: ast_example_defs ast_provider_defs)

text \<open>
  C3. The claim is that a destructured key whose default is no string literal is still
  guarded. The code does not do so: for \<open>const { KEY = 42 } = process.env;\<close> the
  observation has \<open>hasGuards = false\<close> and no default value, and the finding is
  required. The lemmas after the theorem give the general case, and the sibling path:
  the plain access \<open>process.env.PORT || 3000\<close> is guarded although its default is a
  number.
\<close>

theorem destructuring_numeric_default_unguarded:
  "map (\<lambda>n. (n_name n, hasGuards n, n_defaultValue n)) (analyzeDestructuring numericDefaultPath)
     = [(''KEY'', False, None)]
   \<and> map (\<lambda>f. (name f, required f, defaultValue f))
        (convertNodesToFindings resolve
           (extractEnvVariables [VariableDeclaratorVisit numericDefaultPath]) fp options)
     = [(''KEY'', True, None)]"
  by (simp add: ast_example_defs ast_provider_defs)

lemma destructuring_default_not_string_unguarded:
  assumes "\<not> truthy (stringLiteralValue right)"
  shows "map hasGuards
           (destructuredProperty src path
              (ObjectProperty (Identifier key) (AssignmentPattern left right))) = [False]"
  using assms
  by (simp add: destructuredProperty_def assignmentPatternRight_def nodeName_def)

lemma plain_access_numeric_fallback_guarded:
  "analyzeUsageContext numericFallbackPath = \<lparr>ctx_hasGuards = True, ctx_defaultValue = None\<rparr>"
  by (simp add: numericFallbackPath_def analyzeUsageContext_def parentGuard_def
      stringLiteralValue_def)

section \<open>The source-semantics provider and the runtime type guards\<close>

lemma analyzeDestructuring_sources:
  "n \<in> set (analyzeDestructuring path) \<Longrightarrow> n_source n = Ast \<or> n_source n = Importmeta"
  by (auto simp: analyzeDestructuring_def destructuringSource_def Let_def
      dest: destructuredProperty_source split: Node.splits option.splits if_splits)

lemma visitor_sources:
  "n \<in> set (visitor v) \<Longrightarrow> n_source n = Ast \<or> n_source n = Importmeta"
proof (cases v)
  case (MemberExpressionVisit path)
  then show "n \<in> set (visitor v) \<Longrightarrow> n_source n = Ast \<or> n_source n = Importmeta"
    using analyzeProcessEnvAccess_source [of path n] analyzeImportMetaEnvAccess_source [of path n]
    by (auto split: option.splits)
next
  case (VariableDeclaratorVisit path)
  then show "n \<in> set (visitor v) \<Longrightarrow> n_source n = Ast \<or> n_source n = Importmeta"
    using analyzeDestructuring_sources [of n path] by simp
qed

lemma extractEnvVariables_sources:
  "n \<in> set (extractEnvVariables visits) \<Longrightarrow> n_source n = Ast \<or> n_source n = Importmeta"
  using visitor_sources by (auto simp: extractEnvVariables_def)

lemma provider_finding_sources:
  assumes "g \<in> set (convertNodesToFindings resolve (extractEnvVariables visits) fp options)"
  shows "source g = Ast \<or> source g = Importmeta"
proof -
  from convertNodesToFindings_observed [OF assms]
  obtain n where "n \<in> set (extractEnvVariables visits)" and "source g = n_source n"
    by (auto simp: observedBy_def list_ex_iff)
  with extractEnvVariables_sources [of n visits] show ?thesis by simp
qed

lemma processEnv_observation_source:
  assumes "analyzeProcessEnvAccess path = Some n
           \<or> (node path = VariableDeclarator pattern (Some init) \<and> isProcessEnv init
                \<and> n \<in> set (analyzeDestructuring path))"
  shows "n_source n = Ast"
  using assms analyzeProcessEnvAccess_source [of path n]
    analyzeDestructuring_source(1) [of n path pattern init]
  by blast

text \<open>
  C10, as the code has it. For every finding whose source tag is \<open>ast\<close>, both exported
  guards answer false: \<open>isValidSource\<close> on the tag, and \<open>isFinding\<close> on the finding.
  \<open>ast\<close> is the tag the provider gives to its findings of process-environment
  accesses, not to all of its findings: every such observation has a finding of the
  provider that is tagged \<open>ast\<close> and that both guards reject. Every finding of the
  provider is tagged \<open>ast\<close> or \<open>importmeta\<close>, and the guards accept it exactly when its tag
  is \<open>importmeta\<close>.
\<close>

theorem guards_reject_ast_tagged_findings:
  "(source f = Ast
      \<longrightarrow> \<not> isValidSource (JString (sourceTag (source f))) \<and> \<not> isFinding (findingValue f))
   \<and> (n \<in> set (extractEnvVariables visits)
        \<and> (analyzeProcessEnvAccess path = Some n
             \<or> (node path = VariableDeclarator pattern (Some init) \<and> isProcessEnv init
                  \<and> n \<in> set (analyzeDestructuring path)))
      \<longrightarrow> (\<exists>g \<in> set (convertNodesToFindings resolve (extractEnvVariables visits) fp options).
             name g = n_name n \<and> source g = Ast
             \<and> \<not> isValidSource (JString (sourceTag (source g)))
             \<and> \<not> isFinding (findingValue g)))
   \<and> (g \<in> set (convertNodesToFindings resolve (extractEnvVariables visits) fp options)
      \<longrightarrow> (source g = Ast \<or> source g = Importmeta)
          \<and> (isValidSource (JString (sourceTag (source g))) \<longleftrightarrow> source g = Importmeta)
          \<and> (isFinding (findingValue g) \<longleftrightarrow> source g = Importmeta))"
proof (intro conjI impI)
  assume "source f = Ast"
  then show "\<not> isValidSource (JString (sourceTag (source f)))"
    and "\<not> isFinding (findingValue f)"
    by (simp_all add: isValidSource_sourceTag isFinding_findingValue)
next
  assume observation: "n \<in> set (extractEnvVariables visits)
        \<and> (analyzeProcessEnvAccess path = Some n
             \<or> (node path = VariableDeclarator pattern (Some init) \<and> isProcessEnv init
                  \<and> n \<in> set (analyzeDestructuring path)))"
  then have tag: "n_source n = Ast" using processEnv_observation_source by blast
  from observation convertNodesToFindings_covers [of n "extractEnvVariables visits" resolve fp options]
  obtain g where g: "g \<in> set (convertNodesToFindings resolve (extractEnvVariables visits) fp options)"
    and same: "name g = n_name n" "source g = n_source n"
    by blast
  from same tag have "source g = Ast" by simp
  then have "\<not> isValidSource (JString (sourceTag (source g)))" and "\<not> isFinding (findingValue g)"
    by (simp_all add: isValidSource_sourceTag isFinding_findingValue)
  with g same(1) \<open>source g = Ast\<close>
  show "\<exists>g \<in> set (convertNodesToFindings resolve (extractEnvVariables visits) fp options).
          name g = n_name n \<and> source g = Ast
          \<and> \<not> isValidSource (JString (sourceTag (source g)))
          \<and> \<not> isFinding (findingValue g)"
    by blast
next
  assume "g \<in> set (convertNodesToFindings resolve (extractEnvVariables visits) fp options)"
  from provider_finding_sources [OF this]
  show sources: "source g = Ast \<or> source g = Importmeta" .
  from sources show "isValidSource (JString (sourceTag (source g))) \<longleftrightarrow> source g = Importmeta"
    using isValidSource_sourceTag [of "source g"] by auto
  from sources show "isFinding (findingValue g) \<longleftrightarrow> source g = Importmeta"
    using isFinding_findingValue [of g] by auto
qed

theorem guards_reject_ast_tagged_findings_witness:
  "source exampleAstFinding = Ast
   \<and> \<not> isValidSource (JString (sourceTag (source exampleAstFinding)))
   \<and> \<not> isFinding (findingValue exampleAstFinding)
   \<and> (\<exists>g. g \<in> set (convertNodesToFindings id (extractEnvVariables exampleVisits)
                        ''/app/config.ts'' noScanOptions)
          \<and> name g = ''NAME'' \<and> source g = Ast
          \<and> \<not> isValidSource (JString (sourceTag (source g)))
          \<and> \<not> isFinding (findingValue g))
   \<and> (\<exists>g. g \<in> set (convertNodesToFindings id (extractEnvVariables importMetaVisits)
                        ''/app/main.ts'' noScanOptions)
          \<and> source g = Importmeta
          \<and> isValidSource (JString (sourceTag (source g)))
          \<and> isFinding (findingValue g))"
proof -
  have tagged: "source exampleAstFinding = Ast"
    by (simp add: example_findings_defs)
  from guards_reject_ast_tagged_findings
    [where f = exampleAstFinding, THEN conjunct1, THEN mp, OF tagged]
  have first: "\<not> isValidSource (JString (sourceTag (source exampleAstFinding)))
      \<and> \<not> isFinding (findingValue exampleAstFinding)" .
  let ?access = "createEnvVarNode ''NAME'' Ast dotAccessPath (analyzeUsageContext dotAccessPath)"
  have access: "analyzeProcessEnvAccess dotAccessPath = Some ?access"
    by (simp add: analyzeProcessEnvAccess_def dotAccessPath_def processEnvNode_def
        isProcessEnv_def nodeName_def)
  then have observed: "?access \<in> set (extractEnvVariables exampleVisits)"
    by (simp add: extractEnvVariables_def exampleVisits_def)
  from guards_reject_ast_tagged_findings
    [where n = ?access and visits = exampleVisits and path = dotAccessPath and resolve = id
       and fp = "''/app/config.ts''" and options = noScanOptions,
     THEN conjunct2, THEN conjunct1, THEN mp, OF conjI [OF observed disjI1 [OF access]]]
  obtain g where "g \<in> set (convertNodesToFindings id (extractEnvVariables exampleVisits)
                        ''/app/config.ts'' noScanOptions)"
    and "name g = n_name ?access" and "source g = Ast"
    and "\<not> isValidSource (JString (sourceTag (source g)))"
    and "\<not> isFinding (findingValue g)"
    by (elim bexE conjE)
  moreover have "n_name ?access = ''NAME''" by simp
  ultimately have second: "\<exists>g. g \<in> set (convertNodesToFindings id
                        (extractEnvVariables exampleVisits) ''/app/config.ts'' noScanOptions)
          \<and> name g = ''NAME'' \<and> source g = Ast
          \<and> \<not> isValidSource (JString (sourceTag (source g)))
          \<and> \<not> isFinding (findingValue g)"
    by (intro exI [of _ g] conjI) simp_all
  let ?findings = "convertNodesToFindings id (extractEnvVariables importMetaVisits)
                     ''/app/main.ts'' noScanOptions"
  have sources: "map source ?findings = [Importmeta]"
    by (simp add: importMetaVisits_def ast_example_defs ast_provider_defs)
  then obtain h where h: "h \<in> set ?findings" and meta: "source h = Importmeta"
    by (cases ?findings) auto
  from guards_reject_ast_tagged_findings
    [where g = h and visits = importMetaVisits and resolve = id
       and fp = "''/app/main.ts''" and options = noScanOptions,
     THEN conjunct2, THEN conjunct2, THEN mp, OF h]
  have accepted: "(source h = Ast \<or> source h = Importmeta)
      \<and> (isValidSource (JString (sourceTag (source h))) \<longleftrightarrow> source h = Importmeta)
      \<and> (isFinding (findingValue h) \<longleftrightarrow> source h = Importmeta)" .
  from accepted [THEN conjunct2, THEN conjunct1] accepted [THEN conjunct2, THEN conjunct2]
  have "isValidSource (JString (sourceTag (source h))) \<longleftrightarrow> source h = Importmeta"
    and "isFinding (findingValue h) \<longleftrightarrow> source h = Importmeta"
    by - assumption+
  with meta have "isValidSource (JString (sourceTag (source h)))" and "isFinding (findingValue h)"
    by (simp_all only: simp_thms)
  with h meta have third: "\<exists>g. g \<in> set ?findings \<and> source g = Importmeta
          \<and> isValidSource (JString (sourceTag (source g)))
          \<and> isFinding (findingValue g)"
    by (intro exI [of _ h] conjI)
  from tagged first second third show ?thesis by (intro conjI) (elim conjE, assumption)+
qed

text \<open>
  The claim C10 as stated fails in its aside: \<open>ast\<close> is not the tag of all the findings
  of the provider. For \<open>const url = import.meta.env.VITE_PUBLIC_URL;\<close> the finding of the
  provider is tagged \<open>importmeta\<close>, and both guards accept it.
\<close>

theorem ast_tag_for_all_findings_counterexample:
  "map (sourceTag \<circ> source)
     (convertNodesToFindings id (extractEnvVariables importMetaVisits) ''/app/main.ts''
        noScanOptions)
   = [''importmeta'']
   \<and> list_all (isValidSource \<circ> JString \<circ> sourceTag \<circ> source)
        (convertNodesToFindings id (extractEnvVariables importMetaVisits) ''/app/main.ts''
           noScanOptions)
   \<and> list_all (isFinding \<circ> findingValue)
        (convertNodesToFindings id (extractEnvVariables importMetaVisits) ''/app/main.ts''
           noScanOptions)"
  by (simp add: importMetaVisits_def ast_example_defs ast_provider_defs findingValue_def
      getProperty_def optionalProperty_def fileRefValue_def)

section \<open>Properties of the scan orchestrator\<close>

lemma mapSet_empty_entries:
  assumes "list_all (\<lambda>e. snd e = []) acc"
  shows "list_all (\<lambda>e. snd e = []) (mapSet k [] acc)"
  using assms by (induction k "[] :: 'b list" acc rule: mapSet.induct) simp_all

lemma foldl_mapSet_empty_entries:
  assumes "list_all (\<lambda>e. snd e = []) entries" and "list_all (\<lambda>e. snd e = []) acc"
  shows "list_all (\<lambda>e. snd e = [])
           (foldl (\<lambda>results entry. mapSet (fst entry) (snd entry) results) acc entries)"
  using assms
proof (induction entries arbitrary: acc)
  case Nil
  then show ?case by simp
next
  case (Cons entry entries)
  from Cons.prems(1) have head: "snd entry = []"
    and tail: "list_all (\<lambda>e. snd e = []) entries"
    by simp_all
  from mapSet_empty_entries [OF Cons.prems(2), of "fst entry"] head
  have "list_all (\<lambda>e. snd e = []) (mapSet (fst entry) (snd entry) acc)" by simp
  from Cons.IH [OF tail this] show ?case by simp
qed

lemma runProvider_failure:
  "isl (p_scan provider fs options) \<Longrightarrow> runProvider fs options provider = (p_name provider, [])"
  by (cases "p_scan provider fs options") (simp_all add: runProvider_def)

lemma runProviders_all_fail:
  assumes "list_all (\<lambda>provider. isl (p_scan provider fs options))
             (getEnabledProviders scanner options)"
  shows "concat (map snd (runProviders scanner fs options)) = []"
proof -
  have "isl (p_scan provider fs options) \<Longrightarrow> snd (runProvider fs options provider) = []"
    for provider
    by (cases "p_scan provider fs options") (simp_all add: runProvider_def)
  with assms have "list_all (\<lambda>e. snd e = [])
      (map (runProvider fs options) (getEnabledProviders scanner options))"
    by (simp add: list_all_iff)
  from foldl_mapSet_empty_entries [OF this, of "[]"]
  have "list_all (\<lambda>e. snd e = []) (runProviders scanner fs options)"
    by (simp add: runProviders_def)
  then show ?thesis by (simp add: list_all_iff)
qed

lemma mergeAndDeduplicateFindings_nothing:
  assumes no_findings: "concat (map snd providerResults) = []"
  shows "mergeAndDeduplicateFindings env providerResults = Inr []"
  unfolding mergeAndDeduplicateFindings_def Let_def no_findings
  by (simp add: sortWith_def)

text \<open>
  C6. When the files are discovered and the \<open>scan\<close> of every enabled provider throws on
  them, \<open>Scanner.scan\<close> does not throw: it returns a result whose list of findings is
  empty, with a count of findings of zero.
\<close>

theorem scan_survives_failing_providers:
  assumes "discoverFiles env path (normalizeOptions env options) = Inr fs"
    and "\<forall>provider \<in> set (getEnabledProviders scanner
                             (finalOptions env fs (normalizeOptions env options))).
           isl (p_scan provider fs (finalOptions env fs (normalizeOptions env options)))"
  shows "\<exists>result. scan env scanner path options = Inr result
           \<and> sr_findings result = [] \<and> totalFindings (sr_stats result) = 0"
proof -
  from assms(2)
  have "list_all (\<lambda>provider. isl (p_scan provider fs (finalOptions env fs (normalizeOptions env options))))
          (getEnabledProviders scanner (finalOptions env fs (normalizeOptions env options)))"
    unfolding list_all_iff .
  from runProviders_all_fail [OF this]
  have "mergeAndDeduplicateFindings env
          (runProviders scanner fs (finalOptions env fs (normalizeOptions env options))) = Inr []"
    by (rule mergeAndDeduplicateFindings_nothing)
  with assms(1) show ?thesis by (simp add: scan_def Let_def)
qed

lemma normalized_example_options:
  "includeProviders (normalizeOptions exampleEnvironment noScanOptions) = Some []"
  "excludeProviders (normalizeOptions exampleEnvironment noScanOptions) = Some []"
  "framework (normalizeOptions exampleEnvironment noScanOptions) = None"
  by (simp_all add: normalizeOptions_def mergeOptions_def orElse_def DEFAULT_SCAN_OPTIONS_def
      noScanOptions_def)

lemma example_files_no_framework:
  "resolveFramework exampleEnvironment [''/app/src/app.ts'', ''/app/.env''] scanOptions
     = framework scanOptions"
  by (simp add: resolveFramework_def detectFramework_def endsWith_def startsWith_def
      exampleEnvironment_def split: option.splits)

lemma example_final_options:
  "finalOptions exampleEnvironment [''/app/src/app.ts'', ''/app/.env'']
     (normalizeOptions exampleEnvironment noScanOptions)
   = normalizeOptions exampleEnvironment noScanOptions"
  by (simp add: finalOptions_def example_files_no_framework normalized_example_options)

lemma failingScanner_enabled:
  "getEnabledProviders failingScanner (normalizeOptions exampleEnvironment noScanOptions)
     = [failingProvider ''ast'' Ast, failingProvider ''dotenv'' Dotenv]"
  by (simp add: getEnabledProviders_def normalized_example_options failingScanner_def
      registerProvider_def failingProvider_def)

theorem scan_survives_failing_providers_witness:
  "\<exists>result. scan exampleEnvironment failingScanner (Directory ''/app'') noScanOptions = Inr result
      \<and> sr_findings result = [] \<and> totalFindings (sr_stats result) = 0"
proof -
  let ?options = "normalizeOptions exampleEnvironment noScanOptions"
  let ?fs = "[''/app/src/app.ts'', ''/app/.env'']"
  have discovered: "discoverFiles exampleEnvironment (Directory ''/app'') ?options = Inr ?fs"
    by (simp add: discoverFiles_def exampleEnvironment_def)
  have failing: "\<forall>provider \<in> set (getEnabledProviders failingScanner
                     (finalOptions exampleEnvironment ?fs ?options)).
           isl (p_scan provider ?fs (finalOptions exampleEnvironment ?fs ?options))"
    unfolding example_final_options failingScanner_enabled
    by (simp add: failingProvider_def)
  from scan_survives_failing_providers [OF discovered failing] show ?thesis .
qed

subsection \<open>Grouping and merging by name\<close>

lemma map_of_mapSet: "map_of (mapSet k v m) k' = (if k' = k then Some v else map_of m k')"
  by (induction k v m rule: mapSet.induct) auto

lemma distinct_keys_mapSet:
  "distinct (map fst m) \<Longrightarrow> distinct (map fst (mapSet k v m))"
proof (induction k v m rule: mapSet.induct)
  case (1 k v)
  then show ?case by simp
next
  case (2 k v k' v' m)
  then show ?case using map_fst_mapSet [of k v m] by auto
qed

lemma groupOf_addToGroup:
  "groupOf (addToGroup m f) k = groupOf m k @ (if name f = k then [f] else [])"
  by (auto simp: groupOf_def addToGroup_def map_of_mapSet split: option.splits)

lemma groupOf_foldl_addToGroup:
  "groupOf (foldl addToGroup m fs) k = groupOf m k @ filter (\<lambda>f. name f = k) fs"
  by (induction fs arbitrary: m) (simp_all add: groupOf_addToGroup)

lemma distinct_keys_addToGroup:
  "distinct (map fst m) \<Longrightarrow> distinct (map fst (addToGroup m f))"
  by (simp add: addToGroup_def distinct_keys_mapSet split: option.splits)

lemma distinct_keys_foldl_addToGroup:
  "distinct (map fst m) \<Longrightarrow> distinct (map fst (foldl addToGroup m fs))"
  by (induction fs arbitrary: m) (simp_all add: distinct_keys_addToGroup)

lemma keys_addToGroup: "fst ` set (addToGroup m f) = insert (name f) (fst ` set m)"
  by (simp add: addToGroup_def keys_mapSet split: option.splits)

lemma keys_foldl_addToGroup: "fst ` set (foldl addToGroup m fs) = fst ` set m \<union> name ` set fs"
  by (induction fs arbitrary: m) (auto simp: keys_addToGroup)

lemma groups_of_findings:
  assumes "(k, members) \<in> set (foldl addToGroup [] fs)"
  shows "members = filter (\<lambda>f. name f = k) fs" and "members \<noteq> []"
proof -
  let ?groups = "foldl addToGroup [] fs"
  have "distinct (map fst ?groups)" by (rule distinct_keys_foldl_addToGroup) simp
  with assms have "map_of ?groups k = Some members" by simp
  then have "groupOf ?groups k = members" by (simp add: groupOf_def)
  moreover have "groupOf ?groups k = filter (\<lambda>f. name f = k) fs"
    using groupOf_foldl_addToGroup [of "[]" fs k] by (simp add: groupOf_def)
  ultimately show members: "members = filter (\<lambda>f. name f = k) fs" by simp
  from assms have "k \<in> fst ` set ?groups" by force
  then have "k \<in> name ` set fs" by (simp add: keys_foldl_addToGroup)
  with members show "members \<noteq> []" by (auto simp: filter_empty_conv)
qed


lemma merge_one_group:
  assumes "members \<noteq> []" and "list_all (\<lambda>f. name f = k) members"
  shows "\<exists>m. (case members of [single] \<Rightarrow> Inr single | _ \<Rightarrow> mergeFindings members) = Inr m
           \<and> name m = k \<and> required m = list_ex required members"
proof (cases members)
  case Nil
  with assms(1) show ?thesis by simp
next
  case (Cons f0 others)
  show ?thesis
  proof (cases others)
    case Nil
    with Cons assms(2) show ?thesis by simp
  next
    case (Cons f1 fs)
    with \<open>members = f0 # others\<close> have shape: "members = f0 # f1 # fs" by simp
    with assms(2) have first: "name f0 = k" by simp
    with assms(2) shape have "list_all (\<lambda>f. name f = name f0) (f0 # f1 # fs)" by simp
    from mergeFindings_two_or_more [OF this] first shape show ?thesis by auto
  qed
qed

lemma mergeGroups_well_grouped:
  assumes "list_all wellGrouped findingsByName"
  shows "\<exists>ms. mergeGroups findingsByName = Inr ms \<and> list_all2 mergedFrom findingsByName ms"
  using assms
proof (induction findingsByName)
  case Nil
  then show ?case by simp
next
  case (Cons entry remaining)
  obtain k members where entry: "entry = (k, members)" by (cases entry)
  from Cons.prems entry have "members \<noteq> []" and "list_all (\<lambda>f. name f = k) members"
    by (simp_all add: wellGrouped_def)
  from merge_one_group [OF this] obtain m
    where m: "(case members of [single] \<Rightarrow> Inr single | _ \<Rightarrow> mergeFindings members) = Inr m"
      and "name m = k" and "required m = list_ex required members"
    by blast
  then have head: "mergedFrom entry m" by (simp add: mergedFrom_def entry)
  from Cons.prems have "list_all wellGrouped remaining" by simp
  from Cons.IH [OF this] obtain ms
    where ms: "mergeGroups remaining = Inr ms" and rest: "list_all2 mergedFrom remaining ms"
    by blast
  from m ms have "mergeGroups (entry # remaining) = Inr (m # ms)" by (simp add: entry)
  with head rest show ?case by simp
qed

lemma set_insertSorted: "set (insertSorted cmp x ys) = insert x (set ys)"
  by (induction ys) auto

lemma set_sortWith: "set (sortWith cmp xs) = set xs"
  by (induction xs) (simp_all add: sortWith_def set_insertSorted)

lemma length_insertSorted: "length (insertSorted cmp x ys) = Suc (length ys)"
  by (induction ys) simp_all

lemma length_sortWith: "length (sortWith cmp xs) = length xs"
  by (induction xs) (simp_all add: sortWith_def length_insertSorted)

lemma grouping_well_grouped: "list_all wellGrouped (foldl addToGroup [] fs)"
proof -
  have "wellGrouped entry" if "entry \<in> set (foldl addToGroup [] fs)" for entry
  proof -
    obtain k members where entry: "entry = (k, members)" by (cases entry)
    with that groups_of_findings [of k members fs]
    show ?thesis by (simp add: wellGrouped_def list_all_iff)
  qed
  then show ?thesis by (simp add: list_all_iff)
qed

lemma list_all2_source: "list_all2 P xs ys \<Longrightarrow> y \<in> set ys \<Longrightarrow> \<exists>x \<in> set xs. P x y"
  by (induction rule: list_all2_induct) auto

text \<open>
  The merge of the scanner never throws, and each finding it returns is required exactly
  when one of the raw findings of its name is: the rule of C1, for the whole scan.
\<close>

lemma scanner_merge_required_is_or:
  "\<exists>merged. mergeAndDeduplicateFindings env providerResults = Inr merged
     \<and> list_all (\<lambda>m. required m =
            list_ex (\<lambda>f. name f = name m \<and> required f) (concat (map snd providerResults)))
          merged"
proof -
  let ?all = "concat (map snd providerResults)"
  let ?groups = "foldl addToGroup [] ?all"
  from mergeGroups_well_grouped [OF grouping_well_grouped, of ?all] obtain ms
    where ms: "mergeGroups ?groups = Inr ms" and from_groups: "list_all2 mergedFrom ?groups ms"
    by blast
  have "required m = list_ex (\<lambda>f. name f = name m \<and> required f) ?all" if "m \<in> set ms" for m
  proof -
    from list_all2_source [OF from_groups that]
    obtain entry where "entry \<in> set ?groups" and "mergedFrom entry m" by blast
    moreover obtain k members where "entry = (k, members)" by (cases entry)
    ultimately have "(k, members) \<in> set ?groups" and "name m = k"
      and "required m = list_ex required members"
      by (simp_all add: mergedFrom_def)
    with groups_of_findings(1) [of k members ?all]
    show ?thesis by (auto simp: list_ex_iff)
  qed
  then have "list_all (\<lambda>m. required m = list_ex (\<lambda>f. name f = name m \<and> required f) ?all)
      (sortWith (\<lambda>a b. localeCompare env (name a) (name b)) ms)"
    by (simp add: list_all_iff set_sortWith)
  with ms show ?thesis by (simp add: mergeAndDeduplicateFindings_def)
qed

text \<open>
  So \<open>scan\<close> throws only what the file discovery throws: no provider and no merge makes
  it throw.
\<close>

lemma scan_throws_only_with_discovery:
  "scan env scanner path options = Inl err
     \<longleftrightarrow> discoverFiles env path (normalizeOptions env options) = Inl err"
proof (cases "discoverFiles env path (normalizeOptions env options)")
  case (Inl e)
  then show ?thesis by (simp add: scan_def)
next
  case (Inr fs)
  from scanner_merge_required_is_or
    [of env "runProviders scanner fs (finalOptions env fs (normalizeOptions env options))"]
  obtain merged where "mergeAndDeduplicateFindings env
      (runProviders scanner fs (finalOptions env fs (normalizeOptions env options))) = Inr merged"
    by blast
  with Inr show ?thesis by (simp add: scan_def Let_def)
qed

end
